theory Spec2Isabelle
  imports Complex_Main
begin

section \<open>Numbers\<close>

text \<open>
  The program computes with double-precision floats.  Finite values are idealised as
  real numbers (no rounding, no overflow); the non-finite values that numpy produces
  instead of raising (a division by zero, an arcsine outside its domain) are kept as
  explicit constructors, because several operations of the program depend on whether an
  exception is raised or a NaN is returned.
\<close>

datatype npfloat = Num real | PosInf | NegInf | NaN

datatype pyerr = ValueError | ZeroDivisionError | IndexError

fun fadd :: "npfloat \<Rightarrow> npfloat \<Rightarrow> npfloat" where
  "fadd NaN y = NaN"
| "fadd x NaN = NaN"
| "fadd (Num a) (Num b) = Num (a + b)"
| "fadd PosInf NegInf = NaN"
| "fadd NegInf PosInf = NaN"
| "fadd PosInf y = PosInf"
| "fadd x PosInf = PosInf"
| "fadd NegInf y = NegInf"
| "fadd x NegInf = NegInf"

fun fneg :: "npfloat \<Rightarrow> npfloat" where
  "fneg (Num a) = Num (- a)"
| "fneg PosInf = NegInf"
| "fneg NegInf = PosInf"
| "fneg NaN = NaN"

definition fsub :: "npfloat \<Rightarrow> npfloat \<Rightarrow> npfloat" where
  "fsub x y = fadd x (fneg y)"

fun fmul :: "npfloat \<Rightarrow> npfloat \<Rightarrow> npfloat" where
  "fmul NaN y = NaN"
| "fmul x NaN = NaN"
| "fmul (Num a) (Num b) = Num (a * b)"
| "fmul (Num a) PosInf = (if a = 0 then NaN else if 0 < a then PosInf else NegInf)"
| "fmul (Num a) NegInf = (if a = 0 then NaN else if 0 < a then NegInf else PosInf)"
| "fmul PosInf (Num b) = (if b = 0 then NaN else if 0 < b then PosInf else NegInf)"
| "fmul NegInf (Num b) = (if b = 0 then NaN else if 0 < b then NegInf else PosInf)"
| "fmul PosInf PosInf = PosInf"
| "fmul PosInf NegInf = NegInf"
| "fmul NegInf PosInf = NegInf"
| "fmul NegInf NegInf = PosInf"

text \<open>
  numpy's division does not raise on a zero divisor: it warns and returns an infinity or
  NaN.  Both divisors of the program that can be zero are sums or multiples of squares,
  hence \<open>+0.0\<close>, which is the sign of zero taken here.
\<close>

fun fdiv :: "npfloat \<Rightarrow> npfloat \<Rightarrow> npfloat" where
  "fdiv NaN y = NaN"
| "fdiv x NaN = NaN"
| "fdiv (Num a) (Num b) =
     (if b \<noteq> 0 then Num (a / b)
      else if a = 0 then NaN else if 0 < a then PosInf else NegInf)"
| "fdiv (Num a) PosInf = Num 0"
| "fdiv (Num a) NegInf = Num 0"
| "fdiv PosInf (Num b) = (if 0 \<le> b then PosInf else NegInf)"
| "fdiv NegInf (Num b) = (if 0 \<le> b then NegInf else PosInf)"
| "fdiv PosInf y = NaN"
| "fdiv NegInf y = NaN"

fun fabs :: "npfloat \<Rightarrow> npfloat" where
  "fabs (Num a) = Num \<bar>a\<bar>"
| "fabs PosInf = PosInf"
| "fabs NegInf = PosInf"
| "fabs NaN = NaN"

definition fsq :: "npfloat \<Rightarrow> npfloat" where
  "fsq x = fmul x x"

fun fsqrt :: "npfloat \<Rightarrow> npfloat" where
  "fsqrt (Num a) = (if 0 \<le> a then Num (sqrt a) else NaN)"
| "fsqrt PosInf = PosInf"
| "fsqrt NegInf = NaN"
| "fsqrt NaN = NaN"

fun fexp :: "npfloat \<Rightarrow> npfloat" where
  "fexp (Num a) = Num (exp a)"
| "fexp PosInf = PosInf"
| "fexp NegInf = Num 0"
| "fexp NaN = NaN"

definition np_sum :: "npfloat list \<Rightarrow> npfloat" where
  "np_sum xs = foldl fadd (Num 0) xs"

text \<open>\<open>np.mean\<close>: the sum divided by the number of elements (NaN on an empty array).\<close>

definition np_mean :: "npfloat list \<Rightarrow> npfloat" where
  "np_mean xs = fdiv (np_sum xs) (Num (real (length xs)))"

text \<open>\<open>np.std\<close> with its default \<open>ddof = 0\<close>: \<open>sqrt(mean(abs(x - x.mean())**2))\<close>.\<close>

definition np_std :: "npfloat list \<Rightarrow> npfloat" where
  "np_std xs = fsqrt (np_mean (map (\<lambda>x. fsq (fabs (fsub x (np_mean xs)))) xs))"

text \<open>\<open>np.arcsin\<close> returns NaN (with a warning, no exception) outside \<open>[-1, 1]\<close>.\<close>

definition np_arcsin :: "real \<Rightarrow> npfloat" where
  "np_arcsin x = (if - 1 \<le> x \<and> x \<le> 1 then Num (arcsin x) else NaN)"

definition np_degrees :: "npfloat \<Rightarrow> npfloat" where
  "np_degrees x = fmul x (Num (180 / pi))"

section \<open>Data model\<close>

definition HC_KEV_ANGSTROM :: real where
  "HC_KEV_ANGSTROM = 12.39842"

text \<open>
  A region of interest is the dictionary appended by \<open>on_release\<close>.  The \<open>rect\<close> entry
  that \<open>plot_data\<close> attaches later is left out: its only use, in \<open>clear_all\<close>, is
  wrapped in \<open>try/except\<close> and cannot change what the method does to the data.
\<close>

record roi =
  x_min :: real
  x_max :: real
  width :: real
  color :: string

record fit_result =
  params :: "real list"
  cov :: "npfloat list list"
  fwhm :: real
  integral :: npfloat
  r_squared :: npfloat

text \<open>
  A two-dimensional array is the list of its rows.  \<open>Dataset.__init__\<close> accepts
  \<open>raw_data = None\<close>, but its only call site, \<open>import_data\<close>, always passes an array,
  so both series are arrays here.
\<close>

record dataset =
  filename :: string
  raw_data :: "real list list"
  adjusted_data :: "real list list"
  fit_results :: "fit_result list"
  selected_regions :: "roi list"
  x_axis_adjusted :: bool

definition Dataset_init :: "string \<Rightarrow> real list list \<Rightarrow> dataset" where
  "Dataset_init fn raw =
     \<lparr>filename = fn, raw_data = raw, adjusted_data = raw,
      fit_results = [], selected_regions = [], x_axis_adjusted = False\<rparr>"

text \<open>
  The temporary rectangle of a drag.  \<open>current_roi['rect']\<close> is \<open>None\<close>, or a rectangle
  that is on the axes, or a rectangle that \<open>remove()\<close> has already taken off the axes
  while the dictionary still refers to it.  \<open>remove()\<close> on the last one raises
  \<open>ValueError\<close> (the artist is no longer in the list of the axes), and neither handler
  guards the call.  Clearing the axes in \<open>plot_data\<close> does not change which of the two
  a rectangle is: in matplotlib 3 its remove method stays bound to the list it was added
  to.
\<close>

datatype rect_handle = NoRect | OnAxes | Detached

fun rect_remove :: "rect_handle \<Rightarrow> pyerr + rect_handle" where
  "rect_remove NoRect = Inr NoRect"
| "rect_remove OnAxes = Inr Detached"
| "rect_remove Detached = Inl ValueError"

text \<open>
  The dictionary \<open>current_roi\<close> built by \<open>on_press\<close>: \<open>x_min\<close>, \<open>y_min\<close>, the \<open>width\<close>
  that \<open>on_motion\<close> adds, and \<open>rect\<close>.
\<close>

record roi_draft =
  start_x :: real
  start_y :: real
  drag_width :: "real option"
  rect :: rect_handle

record analyzer =
  datasets :: "dataset list"
  current_dataset_index :: int
  region_selection_active :: bool
  current_roi :: "roi_draft option"

definition colors :: "string list" where
  "colors = [''#1f77b4'', ''#ff7f0e'', ''#2ca02c'', ''#d62728'', ''#9467bd'',
             ''#8c564b'', ''#e377c2'', ''#7f7f7f'', ''#bcbd22'', ''#17becf'']"

definition analyzer_init :: analyzer where
  "analyzer_init =
     \<lparr>datasets = [], current_dataset_index = - 1,
      region_selection_active = False, current_roi = None\<rparr>"

definition current_dataset :: "analyzer \<Rightarrow> dataset option" where
  "current_dataset s =
     (if 0 \<le> current_dataset_index s \<and> current_dataset_index s < int (length (datasets s))
      then Some (datasets s ! nat (current_dataset_index s)) else None)"

text \<open>
  The methods mutate the object returned by \<open>current_dataset\<close>; in the model the
  changed dataset is written back at the current index.
\<close>

definition store_current :: "analyzer \<Rightarrow> dataset \<Rightarrow> analyzer" where
  "store_current s d = s\<lparr>datasets := (datasets s)[nat (current_dataset_index s) := d]\<rparr>"

definition on_dataset_changed :: "int \<Rightarrow> analyzer \<Rightarrow> analyzer" where
  "on_dataset_changed index s =
     (if 0 \<le> index \<and> index < int (length (datasets s))
      then s\<lparr>current_dataset_index := index\<rparr> else s)"

text \<open>The series used for display and fitting.\<close>

definition current_series :: "dataset \<Rightarrow> real list list" where
  "current_series d = (if x_axis_adjusted d then adjusted_data d else raw_data d)"

section \<open>Clearing and energy calibration\<close>

definition clear_all :: "analyzer \<Rightarrow> analyzer" where
  "clear_all s =
     (case current_dataset s of
        None \<Rightarrow> s
      | Some d \<Rightarrow> store_current s (d\<lparr>selected_regions := [], fit_results := []\<rparr>))"

text \<open>\<open>arr[:, j]\<close> and \<open>np.column_stack\<close> of two columns.\<close>

definition col :: "nat \<Rightarrow> real list list \<Rightarrow> real list" where
  "col j arr = map (\<lambda>row. row ! j) arr"

definition column_stack :: "real list \<Rightarrow> real list \<Rightarrow> real list list" where
  "column_stack xs ys = map (\<lambda>(x, y). [x, y]) (zip xs ys)"

text \<open>
  The three coefficients are read from line edits with Python's \<open>float\<close>, a builtin
  that is a parameter of the model: \<open>pyfloat t = None\<close> stands for \<open>ValueError\<close>.
\<close>

definition adjust_energy_axis ::
  "(string \<Rightarrow> real option) \<Rightarrow> string \<Rightarrow> string \<Rightarrow> string \<Rightarrow> analyzer \<Rightarrow> analyzer" where
  "adjust_energy_axis pyfloat a_text b_text c_text s =
     (case current_dataset s of
        None \<Rightarrow> s
      | Some dataset \<Rightarrow>
          (case pyfloat a_text of
             None \<Rightarrow> s
           | Some a \<Rightarrow>
               (case pyfloat b_text of
                  None \<Rightarrow> s
                | Some b \<Rightarrow>
                    (case pyfloat c_text of
                       None \<Rightarrow> s
                     | Some c \<Rightarrow>
                         (let channels = col 0 (raw_data dataset);
                              counts = col 1 (raw_data dataset);
                              energies = map (\<lambda>ch. a * ch\<^sup>2 + b * ch + c) channels
                          in clear_all (store_current s
                               (dataset\<lparr>adjusted_data := column_stack energies counts,
                                        x_axis_adjusted := True\<rparr>)))))))"

section \<open>Regions of interest\<close>

text \<open>
  A mouse event of the plot: outside the axes (\<open>event.inaxes\<close> is not the plot's axes and
  \<open>xdata\<close> is \<open>None\<close>) or inside, with its data coordinates \<open>xdata\<close> and \<open>ydata\<close>.
\<close>

datatype mouse_event = OutsideAxes | InAxes real real

definition toggle_roi_selection :: "bool \<Rightarrow> analyzer \<Rightarrow> analyzer" where
  "toggle_roi_selection active s =
     (if active then s\<lparr>region_selection_active := True\<rparr>
      else s\<lparr>region_selection_active := False, current_roi := None\<rparr>)"

fun on_press :: "mouse_event \<Rightarrow> analyzer \<Rightarrow> analyzer" where
  "on_press OutsideAxes s = s"
| "on_press (InAxes x y) s =
     (if \<not> region_selection_active s then s
      else s\<lparr>current_roi :=
              Some \<lparr>start_x = x, start_y = y, drag_width = None, rect = NoRect\<rparr>\<rparr>)"

text \<open>
  \<open>on_motion\<close> removes the rectangle of the previous motion before it looks at the
  position of the event, and draws a new one only inside the axes: after a motion outside
  the axes the dictionary keeps the removed rectangle.  \<open>Inl e\<close> is an exception that
  leaves the handler; it is raised before the first write, so the analyzer is then as it
  was.
\<close>

definition on_motion :: "mouse_event \<Rightarrow> analyzer \<Rightarrow> pyerr + analyzer" where
  "on_motion ev s =
     (if \<not> region_selection_active s then Inr s
      else (case current_roi s of
              None \<Rightarrow> Inr s
            | Some cr \<Rightarrow>
                (case rect_remove (rect cr) of
                   Inl e \<Rightarrow> Inl e
                 | Inr h \<Rightarrow>
                     (case ev of
                        OutsideAxes \<Rightarrow> Inr (s\<lparr>current_roi := Some (cr\<lparr>rect := h\<rparr>)\<rparr>)
                      | InAxes x y \<Rightarrow>
                          Inr (s\<lparr>current_roi :=
                                 Some (cr\<lparr>drag_width := Some (max 0.001 (x - start_x cr)),
                                          rect := OnAxes\<rparr>)\<rparr>)))))"

text \<open>
  The region built by \<open>on_release\<close> from the press position, the release position and
  the number of regions that the dataset already has.
\<close>

definition new_region :: "real \<Rightarrow> real \<Rightarrow> nat \<Rightarrow> roi" where
  "new_region x_start x_end n_regions =
     (let xmin = min x_start x_end;
          xmax = max x_start x_end;
          w = \<bar>xmax - xmin\<bar>;
          color_idx = n_regions mod length colors
      in \<lparr>x_min = xmin, x_max = xmax, width = w, color = colors ! color_idx\<rparr>)"

text \<open>
  \<open>on_release\<close> removes the temporary rectangle after the test of the position and the
  distance and before the region is appended; \<open>current_roi\<close> is reset at the very end.
\<close>

definition on_release :: "mouse_event \<Rightarrow> analyzer \<Rightarrow> pyerr + analyzer" where
  "on_release ev s =
     (if \<not> region_selection_active s then Inr s
      else (case current_roi s of
              None \<Rightarrow> Inr s
            | Some cr \<Rightarrow>
                (case ev of
                   OutsideAxes \<Rightarrow> Inr (s\<lparr>current_roi := None\<rparr>)
                 | InAxes x y \<Rightarrow>
                     (if \<bar>x - start_x cr\<bar> > 0.001
                      then (case rect_remove (rect cr) of
                              Inl e \<Rightarrow> Inl e
                            | Inr h \<Rightarrow>
                                (case current_dataset s of
                                   None \<Rightarrow> Inr (s\<lparr>current_roi := None\<rparr>)
                                 | Some d \<Rightarrow>
                                     Inr ((store_current s
                                            (d\<lparr>selected_regions := selected_regions d @
                                                 [new_region (start_x cr) x
                                                    (length (selected_regions d))]\<rparr>))
                                          \<lparr>region_selection_active := False,
                                           current_roi := None\<rparr>)))
                      else Inr (s\<lparr>current_roi := None\<rparr>)))))"

section \<open>Peak fitting\<close>

text \<open>
  \<open>a * np.exp(-(x - x0)**2 / (2 * sigma**2)) + b * x + c\<close> at one sample.  The
  division is numpy's, so \<open>sigma = 0\<close> gives an infinity or NaN and no exception.
\<close>

definition gaussian_term :: "real \<Rightarrow> real \<Rightarrow> real \<Rightarrow> real \<Rightarrow> npfloat" where
  "gaussian_term x a x0 sigma =
     fmul (Num a) (fexp (fdiv (Num (- ((x - x0)\<^sup>2))) (Num (2 * sigma\<^sup>2))))"

definition gaussian_with_baseline ::
  "real \<Rightarrow> real \<Rightarrow> real \<Rightarrow> real \<Rightarrow> real \<Rightarrow> real \<Rightarrow> npfloat" where
  "gaussian_with_baseline x a x0 sigma b c =
     fadd (fadd (gaussian_term x a x0 sigma) (Num (b * x))) (Num c)"

text \<open>
  The comparison mask of a region over the x column, \<open>np.any\<close>, and indexing an array
  with a mask.
\<close>

definition roi_mask :: "roi \<Rightarrow> real list \<Rightarrow> bool list" where
  "roi_mask r x_data = map (\<lambda>x. x \<ge> x_min r \<and> x \<le> x_max r) x_data"

definition np_any :: "bool list \<Rightarrow> bool" where
  "np_any msk = list_ex (\<lambda>b. b) msk"

definition select_mask :: "bool list \<Rightarrow> real list \<Rightarrow> real list" where
  "select_mask msk xs = map snd (filter fst (zip msk xs))"

text \<open>
  \<open>np.argmax\<close> returns the first index of the maximum and \<open>np.min\<close> the minimum; both
  raise \<open>ValueError\<close> on an empty array.  Indexing out of range raises \<open>IndexError\<close>.
\<close>

fun argmax_from :: "real list \<Rightarrow> nat \<Rightarrow> nat \<Rightarrow> real \<Rightarrow> nat" where
  "argmax_from [] i best_i best = best_i"
| "argmax_from (y # ys) i best_i best =
     (if y > best then argmax_from ys (Suc i) i y else argmax_from ys (Suc i) best_i best)"

definition np_argmax :: "real list \<Rightarrow> pyerr + nat" where
  "np_argmax ys = (case ys of [] \<Rightarrow> Inl ValueError | y # ys' \<Rightarrow> Inr (argmax_from ys' 1 0 y))"

definition np_min :: "real list \<Rightarrow> pyerr + real" where
  "np_min ys = (case ys of [] \<Rightarrow> Inl ValueError | y # ys' \<Rightarrow> Inr (foldl min y ys'))"

definition getitem :: "real list \<Rightarrow> nat \<Rightarrow> pyerr + real" where
  "getitem xs i = (if i < length xs then Inr (xs ! i) else Inl IndexError)"

definition np_linspace :: "real \<Rightarrow> real \<Rightarrow> nat \<Rightarrow> real list" where
  "np_linspace start stop num =
     map (\<lambda>i. start + real i * ((stop - start) / real (num - 1))) [0..<num]"

text \<open>
  \<open>scipy.optimize.curve_fit\<close> and \<open>scipy.integrate.simps\<close> are library routines and
  parameters of the model.  \<open>curve_fit\<close> receives the samples, the initial guess and the
  bounds (the model function and \<open>maxfev = 5000\<close> are fixed) and returns \<open>None\<close> when it
  raises, otherwise the optimal parameters and their covariance.
\<close>

type_synonym curve_fit_t =
  "real list \<Rightarrow> real list \<Rightarrow> real list \<Rightarrow> npfloat list \<times> npfloat list
     \<Rightarrow> (real list \<times> npfloat list list) option"

type_synonym simps_t = "npfloat list \<Rightarrow> real list \<Rightarrow> npfloat"

definition fit_bounds :: "roi \<Rightarrow> npfloat list \<times> npfloat list" where
  "fit_bounds r =
     ([Num 0, Num (x_min r), Num 0, NegInf, NegInf],
      [PosInf, Num (x_max r), Num (x_max r - x_min r), PosInf, PosInf])"

text \<open>
  The body of the \<open>try\<close> block: \<open>None\<close> when an exception is raised inside it
  (\<open>curve_fit\<close> fails, or its result does not unpack into the five parameters).
\<close>

definition fit_try ::
  "curve_fit_t \<Rightarrow> simps_t \<Rightarrow> roi \<Rightarrow> real list \<Rightarrow> real list \<Rightarrow> real list
     \<Rightarrow> fit_result option" where
  "fit_try curve_fit simps r roi_x roi_y p0 =
     (case curve_fit roi_x roi_y p0 (fit_bounds r) of
        None \<Rightarrow> None
      | Some (popt, pcov) \<Rightarrow>
          (if length popt \<noteq> 5 then None
           else
             (let a = popt ! 0; x0 = popt ! 1; sigma = popt ! 2; b = popt ! 3; c = popt ! 4;
                  y_fit = map (\<lambda>x. gaussian_with_baseline x a x0 sigma b c) roi_x;
                  ss_res = np_sum (map (\<lambda>(y, yf). fsq (fsub (Num y) yf)) (zip roi_y y_fit));
                  y_mean = np_mean (map Num roi_y);
                  ss_tot = np_sum (map (\<lambda>y. fsq (fsub (Num y) y_mean)) roi_y);
                  rsq = fsub (Num 1) (fdiv ss_res ss_tot);
                  w = 2 * sqrt (2 * ln 2) * sigma;
                  x_fine = np_linspace (x_min r) (x_max r) 1000;
                  gaussian = map (\<lambda>x. gaussian_term x a x0 sigma) x_fine;
                  area = simps gaussian x_fine
              in Some \<lparr>params = popt, cov = pcov, fwhm = w, integral = area,
                       r_squared = rsq\<rparr>)))"

text \<open>The placeholder appended by the \<open>except\<close> branch.\<close>

definition dummy_result :: "real list \<Rightarrow> fit_result" where
  "dummy_result p0 =
     \<lparr>params = p0, cov = replicate 5 (replicate 5 (Num 0)), fwhm = 0,
      integral = Num 0, r_squared = Num 0\<rparr>"

text \<open>
  One iteration of the loop over the regions: \<open>Inr None\<close> is \<open>continue\<close>,
  \<open>Inr (Some res)\<close> appends \<open>res\<close>, and \<open>Inl e\<close> is an exception raised outside the
  \<open>try\<close> block, which would leave the method.
\<close>

definition initial_guess :: "roi \<Rightarrow> real list \<Rightarrow> real list \<Rightarrow> pyerr + real list" where
  "initial_guess r roi_x roi_y =
     (case np_argmax roi_y of
        Inl e \<Rightarrow> Inl e
      | Inr peak_idx \<Rightarrow>
          (case getitem roi_y peak_idx of
             Inl e \<Rightarrow> Inl e
           | Inr a_guess \<Rightarrow>
               (case getitem roi_x peak_idx of
                  Inl e \<Rightarrow> Inl e
                | Inr x0_guess \<Rightarrow>
                    (case np_min roi_y of
                       Inl e \<Rightarrow> Inl e
                     | Inr c_guess \<Rightarrow>
                         Inr [a_guess, x0_guess, (x_max r - x_min r) / 6, 0, c_guess]))))"

definition fit_roi ::
  "curve_fit_t \<Rightarrow> simps_t \<Rightarrow> real list \<Rightarrow> real list \<Rightarrow> roi \<Rightarrow> pyerr + fit_result option" where
  "fit_roi curve_fit simps x_data y_data r =
     (let msk = roi_mask r x_data in
      if \<not> np_any msk then Inr None
      else
        (let roi_x = select_mask msk x_data;
             roi_y = select_mask msk y_data
         in (case initial_guess r roi_x roi_y of
               Inl e \<Rightarrow> Inl e
             | Inr p0 \<Rightarrow>
                 (case fit_try curve_fit simps r roi_x roi_y p0 of
                    Some res \<Rightarrow> Inr (Some res)
                  | None \<Rightarrow> Inr (Some (dummy_result p0))))))"

fun fit_loop ::
  "curve_fit_t \<Rightarrow> simps_t \<Rightarrow> real list \<Rightarrow> real list \<Rightarrow> roi list \<Rightarrow> fit_result list
     \<Rightarrow> pyerr + fit_result list" where
  "fit_loop curve_fit simps x_data y_data [] results = Inr results"
| "fit_loop curve_fit simps x_data y_data (r # rs) results =
     (case fit_roi curve_fit simps x_data y_data r of
        Inl e \<Rightarrow> Inl e
      | Inr None \<Rightarrow> fit_loop curve_fit simps x_data y_data rs results
      | Inr (Some res) \<Rightarrow> fit_loop curve_fit simps x_data y_data rs (results @ [res]))"

definition fit_peaks :: "curve_fit_t \<Rightarrow> simps_t \<Rightarrow> analyzer \<Rightarrow> pyerr + analyzer" where
  "fit_peaks curve_fit simps s =
     (case current_dataset s of
        None \<Rightarrow> Inr s
      | Some d \<Rightarrow>
          (if selected_regions d = [] then Inr s
           else
             (let data = current_series d;
                  x_data = col 0 data;
                  y_data = col 1 data
              in (case fit_loop curve_fit simps x_data y_data (selected_regions d) [] of
                    Inl e \<Rightarrow> Inl e
                  | Inr results \<Rightarrow> Inr (store_current s (d\<lparr>fit_results := results\<rparr>))))))"

section \<open>2\<theta> calibration\<close>

text \<open>
  A row of the reference table holds the items of its d column and E column: \<open>None\<close>
  when the cell has no item, otherwise the item's text.
\<close>

type_synonym calib_row = "string option \<times> string option"

text \<open>The first loop: a row contributes a pair when both cells hold a text that parses.\<close>

definition row_pair :: "(string \<Rightarrow> real option) \<Rightarrow> calib_row \<Rightarrow> (real \<times> real) option" where
  "row_pair pyfloat row =
     (case row of
        (Some d_text, Some e_text) \<Rightarrow>
          (if d_text \<noteq> [] \<and> e_text \<noteq> []
           then (case pyfloat d_text of
                   None \<Rightarrow> None
                 | Some d \<Rightarrow> (case pyfloat e_text of None \<Rightarrow> None | Some E \<Rightarrow> Some (d, E)))
           else None)
      | _ \<Rightarrow> None)"

fun collect_pairs ::
  "(string \<Rightarrow> real option) \<Rightarrow> calib_row list \<Rightarrow> (real \<times> real) list \<Rightarrow> (real \<times> real) list" where
  "collect_pairs pyfloat [] pairs = pairs"
| "collect_pairs pyfloat (row # rows) pairs =
     (case row_pair pyfloat row of
        None \<Rightarrow> collect_pairs pyfloat rows pairs
      | Some p \<Rightarrow> collect_pairs pyfloat rows (pairs @ [p]))"

text \<open>
  The second loop.  \<open>HC_KEV_ANGSTROM / (2 * d * E)\<close> divides Python floats and raises
  \<open>ZeroDivisionError\<close> on a zero divisor.
\<close>

definition twotheta_deg :: "real \<Rightarrow> real \<Rightarrow> npfloat" where
  "twotheta_deg d E = fmul (Num 2) (np_degrees (np_arcsin (HC_KEV_ANGSTROM / (2 * d * E))))"

fun twotheta_loop :: "(real \<times> real) list \<Rightarrow> npfloat list \<Rightarrow> pyerr + npfloat list" where
  "twotheta_loop [] twotheta_values = Inr twotheta_values"
| "twotheta_loop ((d, E) # pairs) twotheta_values =
     (if 2 * d * E = 0 then Inl ZeroDivisionError
      else twotheta_loop pairs (twotheta_values @ [twotheta_deg d E]))"

text \<open>
  What a successful calibration stores and shows: \<open>calib_params\<close> is
  \<open>[avg_2theta, std_2theta, HC_KEV_ANGSTROM]\<close> and the status line adds the number of
  pairs.  The two ways out without a result are the warning for an empty pair list and the
  error box of the \<open>except\<close> branch.
\<close>

record calib_result =
  avg_2theta :: npfloat
  std_2theta :: npfloat
  constant_used :: real
  n_pairs :: nat

datatype calib_failure = NeedAtLeastOnePair | CalibrationFailed pyerr

definition calibrate_2theta ::
  "(string \<Rightarrow> real option) \<Rightarrow> calib_row list \<Rightarrow> calib_failure + calib_result" where
  "calibrate_2theta pyfloat rows =
     (let pairs = collect_pairs pyfloat rows [] in
      if length pairs = 0 then Inl NeedAtLeastOnePair
      else (case twotheta_loop pairs [] of
              Inl e \<Rightarrow> Inl (CalibrationFailed e)
            | Inr twotheta_values \<Rightarrow>
                Inr \<lparr>avg_2theta = np_mean twotheta_values,
                     std_2theta = np_std twotheta_values,
                     constant_used = HC_KEV_ANGSTROM,
                     n_pairs = length pairs\<rparr>))"

section \<open>Import\<close>

text \<open>
  \<open>np.loadtxt\<close> is a library routine.  Its input here is the file as the list of its
  numeric lines; it skips blank lines, raises \<open>ValueError\<close> when the lines do not all have
  the same number of fields, and squeezes axes of length one, so that a single line or a
  single column comes back one-dimensional.  \<open>Arr2 ncols rows\<close> is a two-dimensional
  array with its second extent.
\<close>

datatype ndarray = Arr0 real | Arr1 "real list" | Arr2 nat "real list list"

definition np_loadtxt :: "real list list \<Rightarrow> pyerr + ndarray" where
  "np_loadtxt file_lines =
     (let rows = filter (\<lambda>row. row \<noteq> []) file_lines in
      case rows of
        [] \<Rightarrow> Inr (Arr1 [])
      | first # others \<Rightarrow>
          (if list_ex (\<lambda>row. length row \<noteq> length first) others then Inl ValueError
           else if others = [] then
             (if length first = 1 then Inr (Arr0 (hd first)) else Inr (Arr1 first))
           else if length first = 1 then Inr (Arr1 (map hd rows))
           else Inr (Arr2 (length first) rows)))"

text \<open>The checks and the truncation that \<open>import_data\<close> applies to the loaded array.\<close>

definition checked_rows :: "ndarray \<Rightarrow> pyerr + real list list" where
  "checked_rows arr =
     (case arr of
        Arr2 ncols rows \<Rightarrow>
          (if ncols < 2 then Inl ValueError
           else Inr (if length rows > 0 then butlast rows else rows))
      | _ \<Rightarrow> Inl ValueError)"

definition load_dataset :: "string \<Rightarrow> real list list \<Rightarrow> pyerr + dataset" where
  "load_dataset fn file_lines =
     (case np_loadtxt file_lines of
        Inl e \<Rightarrow> Inl e
      | Inr arr \<Rightarrow>
          (case checked_rows arr of
             Inl e \<Rightarrow> Inl e
           | Inr raw \<Rightarrow> Inr (Dataset_init fn raw)))"

text \<open>
  An empty file name is a cancelled file dialog.  An exception of the \<open>try\<close> block ends
  in an error box and leaves the analyzer as it was.
\<close>

definition import_data :: "string \<Rightarrow> real list list \<Rightarrow> analyzer \<Rightarrow> analyzer" where
  "import_data fn file_lines s =
     (if fn = [] then s
      else (case load_dataset fn file_lines of
              Inl e \<Rightarrow> s
            | Inr d \<Rightarrow>
                s\<lparr>datasets := datasets s @ [d],
                  current_dataset_index := int (length (datasets s @ [d])) - 1\<rparr>))"

section \<open>Sequences of operations\<close>

datatype op =
    ImportData string "real list list"
  | OnDatasetChanged int
  | ToggleRoiSelection bool
  | OnPress mouse_event
  | OnMotion mouse_event
  | OnRelease mouse_event
  | FitPeaks
  | ClearAll
  | AdjustEnergyAxis string string string

fun step ::
  "(string \<Rightarrow> real option) \<Rightarrow> curve_fit_t \<Rightarrow> simps_t \<Rightarrow> op \<Rightarrow> analyzer \<Rightarrow> pyerr + analyzer" where
  "step pyfloat curve_fit simps (ImportData fn file_lines) s = Inr (import_data fn file_lines s)"
| "step pyfloat curve_fit simps (OnDatasetChanged i) s = Inr (on_dataset_changed i s)"
| "step pyfloat curve_fit simps (ToggleRoiSelection active) s = Inr (toggle_roi_selection active s)"
| "step pyfloat curve_fit simps (OnPress ev) s = Inr (on_press ev s)"
| "step pyfloat curve_fit simps (OnMotion ev) s = on_motion ev s"
| "step pyfloat curve_fit simps (OnRelease ev) s = on_release ev s"
| "step pyfloat curve_fit simps FitPeaks s = fit_peaks curve_fit simps s"
| "step pyfloat curve_fit simps ClearAll s = Inr (clear_all s)"
| "step pyfloat curve_fit simps (AdjustEnergyAxis a_text b_text c_text) s =
     Inr (adjust_energy_axis pyfloat a_text b_text c_text s)"

text \<open>
  The handlers run from the event loop.  An exception that leaves a mouse handler is
  reported by the callback registry of the plot, and the loop goes on with the analyzer
  as the handler left it, which is the analyzer before the event, since both handlers
  raise before their first write.  \<open>run\<close> returns the analyzer after the last
  operation and the exceptions reported on the way.
\<close>

fun run ::
  "(string \<Rightarrow> real option) \<Rightarrow> curve_fit_t \<Rightarrow> simps_t \<Rightarrow> op list \<Rightarrow> analyzer
     \<Rightarrow> analyzer \<times> pyerr list" where
  "run pyfloat curve_fit simps [] s = (s, [])"
| "run pyfloat curve_fit simps (x # xs) s =
     (case step pyfloat curve_fit simps x s of
        Inl e \<Rightarrow>
          (case run pyfloat curve_fit simps xs s of (s', es) \<Rightarrow> (s', e # es))
      | Inr s1 \<Rightarrow> run pyfloat curve_fit simps xs s1)"

section \<open>Notions of the specification\<close>

text \<open>A region has samples when some x value of the series lies within its bounds.\<close>

definition has_samples :: "roi \<Rightarrow> real list \<Rightarrow> bool" where
  "has_samples r x_data = list_ex (\<lambda>x. x_min r \<le> x \<and> x \<le> x_max r) x_data"

text \<open>The fit-result list of a dataset is never longer than its region list.\<close>

definition within_regions :: "dataset \<Rightarrow> bool" where
  "within_regions d = (length (fit_results d) \<le> length (selected_regions d))"

definition all_within_regions :: "analyzer \<Rightarrow> bool" where
  "all_within_regions s = list_all within_regions (datasets s)"

text \<open>
  Bragg's law as the specification words it: the arcsine argument \<open>hc / (2 d E)\<close> with
  \<open>hc = 12.39842\<close>, the angle \<open>2 arcsin(hc / (2 d E))\<close> converted to degrees, the
  arithmetic mean and the population standard deviation (divisor \<open>n\<close>).
\<close>

definition spec_arg :: "real \<times> real \<Rightarrow> real" where
  "spec_arg p = (case p of (d, E) \<Rightarrow> 12.39842 / (2 * d * E))"

definition spec_twotheta :: "real \<times> real \<Rightarrow> real" where
  "spec_twotheta p = 2 * arcsin (spec_arg p) * 180 / pi"

definition spec_mean :: "real list \<Rightarrow> real" where
  "spec_mean xs = sum_list xs / real (length xs)"

definition spec_pop_std :: "real list \<Rightarrow> real" where
  "spec_pop_std xs = sqrt (sum_list (map (\<lambda>x. (x - spec_mean xs)\<^sup>2) xs) / real (length xs))"

definition in_domain :: "real \<times> real \<Rightarrow> bool" where
  "in_domain p = (- 1 \<le> spec_arg p \<and> spec_arg p \<le> 1)"

definition nonzero_product :: "real \<times> real \<Rightarrow> bool" where
  "nonzero_product p = (case p of (d, E) \<Rightarrow> d * E \<noteq> 0)"

text \<open>The per-pair angle, NaN where the arcsine is not defined.\<close>

definition pair_value :: "real \<times> real \<Rightarrow> npfloat" where
  "pair_value p = (if in_domain p then Num (spec_twotheta p) else NaN)"

text \<open>A complete row: both cells present, both texts nonempty and numeric.\<close>

definition complete_row :: "(string \<Rightarrow> real option) \<Rightarrow> calib_row \<Rightarrow> bool" where
  "complete_row pyfloat row =
     (case row of
        (Some d_text, Some e_text) \<Rightarrow>
          d_text \<noteq> [] \<and> e_text \<noteq> [] \<and> pyfloat d_text \<noteq> None \<and> pyfloat e_text \<noteq> None
      | _ \<Rightarrow> False)"

section \<open>Example inputs\<close>

text \<open>
  Python's \<open>float\<close> on the texts that the examples use; every other text of the
  examples (\<open>abc\<close>) is not a number.
\<close>

definition example_float :: "string \<Rightarrow> real option" where
  "example_float t =
     (if t = ''0'' then Some 0
      else if t = ''1'' then Some 1
      else if t = ''2'' then Some 2
      else if t = ''2.1065'' then Some 2.1065
      else if t = ''5.9'' then Some 5.9
      else None)"

definition example_dataset :: dataset where
  "example_dataset = Dataset_init ''spectrum.txt'' [[1, 10], [2, 30], [3, 20]]"

definition example_region :: roi where
  "example_region = \<lparr>x_min = 1.5, x_max = 3.5, width = 2, color = ''#1f77b4''\<rparr>"

definition example_fitted :: dataset where
  "example_fitted =
     example_dataset\<lparr>selected_regions := [example_region],
                     fit_results := [dummy_result [30, 2, 1 / 3, 0, 20]]\<rparr>"

definition example_analyzer :: "dataset \<Rightarrow> analyzer" where
  "example_analyzer d =
     \<lparr>datasets = [d], current_dataset_index = 0,
      region_selection_active = False, current_roi = None\<rparr>"

text \<open>A solver that never converges, and a quadrature that returns zero.\<close>

definition failing_curve_fit :: curve_fit_t where
  "failing_curve_fit xs ys p0 bounds = None"

definition zero_simps :: simps_t where
  "zero_simps ys xs = Num 0"

text \<open>A dataset with two regions, the first of which lies outside the series.\<close>

definition example_second_region :: roi where
  "example_second_region = \<lparr>x_min = 1.5, x_max = 3.5, width = 2, color = ''#ff7f0e''\<rparr>"

definition example_two_regions :: dataset where
  "example_two_regions =
     example_dataset\<lparr>selected_regions :=
       [\<lparr>x_min = 5, x_max = 6, width = 1, color = ''#1f77b4''\<rparr>, example_second_region]\<rparr>"

text \<open>A session: import a file, switch region selection on, drag from 3.5 to 1.5.\<close>

definition example_ops :: "op list" where
  "example_ops =
     [ImportData ''spectrum.txt'' [[1, 10], [2, 30], [3, 20], [4, 0]],
      ToggleRoiSelection True,
      OnPress (InAxes 3.5 7),
      OnMotion (InAxes 2 7),
      OnRelease (InAxes 1.5 7)]"

text \<open>
  The same drag with a detour: the pointer leaves the axes, which removes the temporary
  rectangle, and comes back before the button is released.
\<close>

definition example_detour_ops :: "op list" where
  "example_detour_ops =
     [ImportData ''spectrum.txt'' [[1, 10], [2, 30], [3, 20], [4, 0]],
      ToggleRoiSelection True,
      OnPress (InAxes 3.5 7),
      OnMotion (InAxes 2 7),
      OnMotion OutsideAxes]"

definition example_detour :: analyzer where
  "example_detour =
     \<lparr>datasets = [example_dataset], current_dataset_index = 0,
      region_selection_active = True,
      current_roi =
        Some \<lparr>start_x = 3.5, start_y = 7, drag_width = Some 0.001, rect = Detached\<rparr>\<rparr>"

section \<open>The current dataset\<close>

lemma current_dataset_store_current:
  "current_dataset s = Some d0 \<Longrightarrow> current_dataset (store_current s d) = Some d"
  by (auto simp: current_dataset_def store_current_def split: if_splits)

lemma current_dataset_nth:
  "current_dataset s = Some d \<Longrightarrow>
   nat (current_dataset_index s) < length (datasets s) \<and>
   datasets s ! nat (current_dataset_index s) = d"
  by (auto simp: current_dataset_def split: if_splits)

lemma example_current: "current_dataset (example_analyzer d) = Some d"
  by (simp add: current_dataset_def example_analyzer_def)

lemma clear_all_current:
  "current_dataset s = Some d \<Longrightarrow>
   current_dataset (clear_all s) = Some (d\<lparr>selected_regions := [], fit_results := []\<rparr>)"
  by (simp add: clear_all_def current_dataset_store_current)

section \<open>Energy calibration\<close>

lemma length_col: "length (col j arr) = length arr"
  by (simp add: col_def)

lemma col0_column_stack: "length xs = length ys \<Longrightarrow> col 0 (column_stack xs ys) = xs"
  by (induction xs ys rule: list_induct2) (simp_all add: col_def column_stack_def)

lemma col1_column_stack: "length xs = length ys \<Longrightarrow> col 1 (column_stack xs ys) = ys"
  by (induction xs ys rule: list_induct2) (simp_all add: col_def column_stack_def)

lemma adjust_energy_axis_current:
  assumes "current_dataset s = Some d"
    and "pyfloat a_text = Some a" and "pyfloat b_text = Some b" and "pyfloat c_text = Some c"
  shows "current_dataset (adjust_energy_axis pyfloat a_text b_text c_text s) =
         Some (d\<lparr>adjusted_data :=
                    column_stack (map (\<lambda>ch. a * ch\<^sup>2 + b * ch + c) (col 0 (raw_data d)))
                      (col 1 (raw_data d)),
                  x_axis_adjusted := True, selected_regions := [], fit_results := []\<rparr>)"
  using assms
  by (simp add: adjust_energy_axis_def Let_def clear_all_current current_dataset_store_current)

text \<open>
  Claim C1.  Applying the energy calibration with coefficients \<open>a\<close>, \<open>b\<close>, \<open>c\<close> gives an
  adjusted series whose x column is \<open>a * channel\<^sup>2 + b * channel + c\<close>, element by
  element over the raw channel column, and whose counts column is the raw counts column.
\<close>

theorem adjust_energy_axis_formula:
  assumes "current_dataset s = Some d"
    and "pyfloat a_text = Some a" and "pyfloat b_text = Some b" and "pyfloat c_text = Some c"
  shows "\<exists>d'. current_dataset (adjust_energy_axis pyfloat a_text b_text c_text s) = Some d' \<and>
           col 0 (adjusted_data d') = map (\<lambda>ch. a * ch\<^sup>2 + b * ch + c) (col 0 (raw_data d)) \<and>
           col 1 (adjusted_data d') = col 1 (raw_data d)"
proof -
  have len: "length (map (\<lambda>ch. a * ch\<^sup>2 + b * ch + c) (col 0 (raw_data d))) =
             length (col 1 (raw_data d))"
    by (simp add: length_col)
  show ?thesis
    using adjust_energy_axis_current [OF assms] col0_column_stack [OF len]
      col1_column_stack [OF len]
    by simp
qed

theorem adjust_energy_axis_formula_witness:
  "current_dataset (example_analyzer example_dataset) = Some example_dataset \<and>
   example_float ''2'' = Some 2 \<and> example_float ''1'' = Some 1 \<and> example_float ''0'' = Some 0 \<and>
   (\<exists>d'. current_dataset
            (adjust_energy_axis example_float ''2'' ''1'' ''0'' (example_analyzer example_dataset)) =
          Some d' \<and>
        col 0 (adjusted_data d') = [3, 10, 21] \<and> col 1 (adjusted_data d') = [10, 30, 20])"
proof -
  have h: "current_dataset (example_analyzer example_dataset) = Some example_dataset"
    by (rule example_current)
  have fa: "example_float ''2'' = Some 2" and fb: "example_float ''1'' = Some 1"
    and fc: "example_float ''0'' = Some 0"
    by (simp_all add: example_float_def)
  from adjust_energy_axis_formula [OF h fa fb fc] h fa fb fc show ?thesis
    by (simp add: example_dataset_def Dataset_init_def col_def)
qed

text \<open>
  Claim C2.  After an energy calibration has been applied, the dataset has no regions and
  no fit results and its flag \<open>x_axis_adjusted\<close> is set, whatever regions and fit results
  it had before: the clearing is part of \<open>adjust_energy_axis\<close> itself.
\<close>

theorem adjust_energy_axis_clears:
  assumes "current_dataset s = Some d"
    and "pyfloat a_text = Some a" and "pyfloat b_text = Some b" and "pyfloat c_text = Some c"
  shows "\<exists>d'. current_dataset (adjust_energy_axis pyfloat a_text b_text c_text s) = Some d' \<and>
           selected_regions d' = [] \<and> fit_results d' = [] \<and> x_axis_adjusted d'"
  using adjust_energy_axis_current [OF assms] by simp

theorem adjust_energy_axis_clears_witness:
  "current_dataset (example_analyzer example_fitted) = Some example_fitted \<and>
   example_float ''0'' = Some 0 \<and> example_float ''1'' = Some 1 \<and>
   length (selected_regions example_fitted) = 1 \<and> length (fit_results example_fitted) = 1 \<and>
   (\<exists>d'. current_dataset
            (adjust_energy_axis example_float ''0'' ''1'' ''0'' (example_analyzer example_fitted)) =
          Some d' \<and>
        selected_regions d' = [] \<and> fit_results d' = [] \<and> x_axis_adjusted d')"
proof -
  have h: "current_dataset (example_analyzer example_fitted) = Some example_fitted"
    by (rule example_current)
  have f0: "example_float ''0'' = Some 0" and f1: "example_float ''1'' = Some 1"
    by (simp_all add: example_float_def)
  from adjust_energy_axis_clears [OF h f0 f1 f0] h f0 f1 show ?thesis
    by (simp add: example_fitted_def)
qed

section \<open>Peak fitting: one region\<close>

lemma np_any_roi_mask: "np_any (roi_mask r xs) = has_samples r xs"
  by (auto simp: np_any_def roi_mask_def has_samples_def list_ex_iff)

lemma length_roi_mask: "length (roi_mask r xs) = length xs"
  by (simp add: roi_mask_def)

lemma length_select_mask:
  "length msk = length xs \<Longrightarrow> length (select_mask msk xs) = length (filter (\<lambda>b. b) msk)"
  by (induction msk xs rule: list_induct2) (simp_all add: select_mask_def)

lemma select_mask_nonempty:
  assumes "np_any msk" and "length msk = length xs"
  shows "select_mask msk xs \<noteq> []"
proof -
  from assms(1) have "filter (\<lambda>b. b) msk \<noteq> []"
    by (auto simp: np_any_def list_ex_iff filter_empty_conv)
  with length_select_mask [OF assms(2)] show ?thesis
    by (metis length_0_conv)
qed

lemma argmax_from_bound:
  "best_i < i \<Longrightarrow> argmax_from ys i best_i best < i + length ys"
proof (induction ys arbitrary: i best_i best)
  case Nil
  then show ?case by simp
next
  case (Cons y ys)
  have a: "argmax_from ys (Suc i) i y < Suc i + length ys"
    by (rule Cons.IH) simp
  have b: "argmax_from ys (Suc i) best_i best < Suc i + length ys"
    by (rule Cons.IH) (use Cons.prems in simp)
  from a b show ?case by simp
qed

lemma np_argmax_in_range:
  "ys \<noteq> [] \<Longrightarrow> \<exists>k. np_argmax ys = Inr k \<and> k < length ys"
  using argmax_from_bound [of 0 1] by (cases ys) (auto simp: np_argmax_def)

lemma initial_guess_total:
  assumes "roi_y \<noteq> []" and "length roi_x = length roi_y"
  shows "\<exists>a_guess x0_guess c_guess.
           initial_guess r roi_x roi_y =
             Inr [a_guess, x0_guess, (x_max r - x_min r) / 6, 0, c_guess]"
proof -
  from np_argmax_in_range [OF assms(1)] obtain k
    where k: "np_argmax roi_y = Inr k" "k < length roi_y" by blast
  from assms(1) obtain y ys where "roi_y = y # ys" by (cases roi_y) auto
  then have "np_min roi_y = Inr (foldl min y ys)" by (simp add: np_min_def)
  with k assms(2) show ?thesis
    by (simp add: initial_guess_def getitem_def)
qed

lemma fit_roi_empty:
  "\<not> has_samples r x_data \<Longrightarrow> fit_roi curve_fit simps x_data y_data r = Inr None"
  by (simp add: fit_roi_def np_any_roi_mask)

lemma fit_roi_nonempty:
  assumes "has_samples r x_data" and "length x_data = length y_data"
  shows "\<exists>p0. initial_guess r (select_mask (roi_mask r x_data) x_data)
                 (select_mask (roi_mask r x_data) y_data) = Inr p0 \<and>
           fit_roi curve_fit simps x_data y_data r =
             Inr (Some (case fit_try curve_fit simps r (select_mask (roi_mask r x_data) x_data)
                               (select_mask (roi_mask r x_data) y_data) p0 of
                          Some res \<Rightarrow> res | None \<Rightarrow> dummy_result p0))"
proof -
  let ?m = "roi_mask r x_data"
  have any: "np_any ?m" using assms(1) by (simp add: np_any_roi_mask)
  have ne: "select_mask ?m y_data \<noteq> []"
    using select_mask_nonempty [OF any] assms(2) by (simp add: length_roi_mask)
  have len: "length (select_mask ?m x_data) = length (select_mask ?m y_data)"
    using assms(2) by (simp add: length_select_mask length_roi_mask)
  from initial_guess_total [OF ne len, of r] obtain p0
    where p0: "initial_guess r (select_mask ?m x_data) (select_mask ?m y_data) = Inr p0"
    by blast
  show ?thesis
    using any p0 by (auto simp: fit_roi_def Let_def split: option.splits)
qed

lemma fit_roi_result:
  assumes "length x_data = length y_data"
  shows "\<exists>res. fit_roi curve_fit simps x_data y_data r =
           (if has_samples r x_data then Inr (Some res) else Inr None)"
  using fit_roi_empty [of r x_data] fit_roi_nonempty [OF _ assms, of r]
  by (cases "has_samples r x_data") auto

lemma fit_loop_char:
  assumes "length x_data = length y_data"
  shows "\<exists>results. fit_loop curve_fit simps x_data y_data rs acc = Inr (acc @ results) \<and>
           map (fit_roi curve_fit simps x_data y_data)
               (filter (\<lambda>r. has_samples r x_data) rs) = map (\<lambda>res. Inr (Some res)) results"
proof (induction rs arbitrary: acc)
  case Nil
  then show ?case by simp
next
  case (Cons r rs)
  from fit_roi_result [OF assms, of curve_fit simps r] obtain res
    where res: "fit_roi curve_fit simps x_data y_data r =
                  (if has_samples r x_data then Inr (Some res) else Inr None)" by blast
  show ?case
  proof (cases "has_samples r x_data")
    case True
    from Cons.IH [of "acc @ [res]"] obtain results
      where "fit_loop curve_fit simps x_data y_data rs (acc @ [res]) = Inr ((acc @ [res]) @ results)"
        and "map (fit_roi curve_fit simps x_data y_data)
               (filter (\<lambda>r. has_samples r x_data) rs) = map (\<lambda>res. Inr (Some res)) results"
      by blast
    with True res show ?thesis
      by (intro exI [of _ "res # results"]) simp
  next
    case False
    from Cons.IH [of acc] obtain results
      where "fit_loop curve_fit simps x_data y_data rs acc = Inr (acc @ results)"
        and "map (fit_roi curve_fit simps x_data y_data)
               (filter (\<lambda>r. has_samples r x_data) rs) = map (\<lambda>res. Inr (Some res)) results"
      by blast
    with False res show ?thesis
      by (intro exI [of _ results]) simp
  qed
qed






section \<open>Fitting a dataset and running operations\<close>

lemma fit_peaks_none: "current_dataset s = None \<Longrightarrow> fit_peaks curve_fit simps s = Inr s"
  by (simp add: fit_peaks_def)

lemma fit_peaks_no_regions:
  "current_dataset s = Some d \<Longrightarrow> selected_regions d = [] \<Longrightarrow> fit_peaks curve_fit simps s = Inr s"
  by (simp add: fit_peaks_def)

lemma fit_peaks_char:
  assumes "current_dataset s = Some d" and "selected_regions d \<noteq> []"
  shows "\<exists>results.
           fit_peaks curve_fit simps s = Inr (store_current s (d\<lparr>fit_results := results\<rparr>)) \<and>
           map (fit_roi curve_fit simps (col 0 (current_series d)) (col 1 (current_series d)))
               (filter (\<lambda>r. has_samples r (col 0 (current_series d))) (selected_regions d)) =
             map (\<lambda>res. Inr (Some res)) results"
proof -
  have len: "length (col 0 (current_series d)) = length (col 1 (current_series d))"
    by (simp add: length_col)
  from fit_loop_char [OF len, of curve_fit simps "selected_regions d" "[]"]
  show ?thesis using assms by (auto simp: fit_peaks_def Let_def)
qed

lemma results_length_le:
  assumes "map f (filter P rs) = map g results"
  shows "length results \<le> length rs"
proof -
  have "length results = length (filter P rs)"
    using assms by (metis length_map)
  then show ?thesis by simp
qed

lemma store_current_raw:
  assumes "current_dataset s = Some d" and "raw_data d' = raw_data d"
  shows "map raw_data (datasets (store_current s d')) = map raw_data (datasets s)"
  using current_dataset_nth [OF assms(1)] assms(2)
  by (simp add: store_current_def map_update list_update_same_conv)

lemma store_current_within:
  assumes "all_within_regions s" and "within_regions d'"
  shows "all_within_regions (store_current s d')"
  using assms
  by (auto simp: all_within_regions_def store_current_def list_all_iff
           dest!: set_update_subset_insert [THEN subsetD])

lemma current_within:
  "all_within_regions s \<Longrightarrow> current_dataset s = Some d \<Longrightarrow> within_regions d"
  using current_dataset_nth [of s d]
  by (auto simp: all_within_regions_def list_all_iff)

lemma clear_all_raw: "map raw_data (datasets (clear_all s)) = map raw_data (datasets s)"
  by (cases "current_dataset s") (simp_all add: clear_all_def store_current_raw)

lemma clear_all_within: "all_within_regions s \<Longrightarrow> all_within_regions (clear_all s)"
  by (cases "current_dataset s")
     (simp_all add: clear_all_def store_current_within within_regions_def)

lemma adjust_energy_axis_raw:
  "map raw_data (datasets (adjust_energy_axis pyfloat ta tb tc s)) = map raw_data (datasets s)"
  by (auto simp: adjust_energy_axis_def Let_def clear_all_raw store_current_raw
           split: option.splits)

lemma adjust_energy_axis_within:
  assumes "all_within_regions s"
  shows "all_within_regions (adjust_energy_axis pyfloat ta tb tc s)"
proof -
  have "all_within_regions (store_current s (d\<lparr>adjusted_data := arr, x_axis_adjusted := True\<rparr>))"
    if "current_dataset s = Some d" for d arr
    using current_within [OF assms that]
    by (intro store_current_within [OF assms]) (simp add: within_regions_def)
  then show ?thesis
    using assms
    by (auto simp: adjust_energy_axis_def Let_def split: option.splits intro!: clear_all_within)
qed

lemma on_motion_datasets: "on_motion ev s = Inr s' \<Longrightarrow> datasets s' = datasets s"
  by (auto simp: on_motion_def split: if_splits option.splits sum.splits mouse_event.splits)

lemma on_release_raw:
  "on_release ev s = Inr s' \<Longrightarrow> map raw_data (datasets s') = map raw_data (datasets s)"
  by (auto simp: on_release_def store_current_raw
           split: if_splits option.splits sum.splits mouse_event.splits)

lemma on_release_within:
  assumes "all_within_regions s" and "on_release ev s = Inr s'"
  shows "all_within_regions s'"
proof -
  have "all_within_regions (store_current s (d\<lparr>selected_regions := selected_regions d @ [r]\<rparr>))"
    if "current_dataset s = Some d" for d r
    using current_within [OF assms(1) that]
    by (intro store_current_within [OF assms(1)]) (simp add: within_regions_def)
  then have "all_within_regions
      ((store_current s (d\<lparr>selected_regions := selected_regions d @ [r]\<rparr>))
         \<lparr>region_selection_active := False, current_roi := None\<rparr>)"
    if "current_dataset s = Some d" for d r
    using that by (simp add: all_within_regions_def)
  then show ?thesis
    using assms
    by (auto simp: on_release_def all_within_regions_def
             split: if_splits option.splits sum.splits mouse_event.splits)
qed

lemma fit_peaks_total:
  "\<exists>s'. fit_peaks curve_fit simps s = Inr s' \<and>
        map raw_data (datasets s') = map raw_data (datasets s) \<and>
        (all_within_regions s \<longrightarrow> all_within_regions s')"
proof (cases "current_dataset s")
  case None
  then show ?thesis by (simp add: fit_peaks_none)
next
  case (Some d)
  show ?thesis
  proof (cases "selected_regions d = []")
    case True
    with Some show ?thesis by (simp add: fit_peaks_no_regions)
  next
    case False
    from fit_peaks_char [OF Some False, of curve_fit simps] obtain results
      where fp: "fit_peaks curve_fit simps s = Inr (store_current s (d\<lparr>fit_results := results\<rparr>))"
        and mp: "map (fit_roi curve_fit simps (col 0 (current_series d)) (col 1 (current_series d)))
               (filter (\<lambda>r. has_samples r (col 0 (current_series d))) (selected_regions d)) =
             map (\<lambda>res. Inr (Some res)) results"
      by blast
    have "within_regions (d\<lparr>fit_results := results\<rparr>)"
      using results_length_le [OF mp] by (simp add: within_regions_def)
    then show ?thesis
      using fp Some by (simp add: store_current_raw store_current_within)
  qed
qed

lemma import_data_raw:
  "\<exists>zs. map raw_data (datasets (import_data fn file_lines s)) = map raw_data (datasets s) @ zs"
  by (auto simp: import_data_def split: sum.splits)

lemma load_dataset_within: "load_dataset fn file_lines = Inr d \<Longrightarrow> within_regions d"
  by (auto simp: load_dataset_def Dataset_init_def within_regions_def split: sum.splits)

lemma import_data_within:
  "all_within_regions s \<Longrightarrow> all_within_regions (import_data fn file_lines s)"
  by (auto simp: import_data_def all_within_regions_def dest: load_dataset_within
           split: sum.splits)

lemma step_invariants:
  assumes "step pyfloat curve_fit simps x s = Inr s'"
  shows "(\<exists>zs. map raw_data (datasets s') = map raw_data (datasets s) @ zs) \<and>
         (all_within_regions s \<longrightarrow> all_within_regions s')"
proof (cases x)
  case (ImportData fn file_lines)
  then show ?thesis using assms import_data_raw [of fn file_lines s]
    by (auto simp: import_data_within)
next
  case (OnDatasetChanged i)
  then show ?thesis using assms by (auto simp: on_dataset_changed_def all_within_regions_def)
next
  case (ToggleRoiSelection active)
  then show ?thesis using assms by (auto simp: toggle_roi_selection_def all_within_regions_def)
next
  case (OnPress ev)
  then show ?thesis using assms by (cases ev) (auto simp: all_within_regions_def)
next
  case (OnMotion ev)
  then show ?thesis using assms on_motion_datasets [of ev s s']
    by (simp add: all_within_regions_def)
next
  case (OnRelease ev)
  then show ?thesis using assms on_release_raw [of ev s s'] on_release_within [of s ev s']
    by simp
next
  case FitPeaks
  then show ?thesis using assms fit_peaks_total [of curve_fit simps s] by auto
next
  case ClearAll
  then show ?thesis using assms by (auto simp: clear_all_raw clear_all_within)
next
  case (AdjustEnergyAxis ta tb tc)
  then show ?thesis using assms
    by (auto simp: adjust_energy_axis_raw adjust_energy_axis_within)
qed

text \<open>Only the two mouse handlers can raise, and what they raise is \<open>ValueError\<close>.\<close>

lemma step_raises:
  assumes "step pyfloat curve_fit simps x s = Inl e"
  shows "e = ValueError \<and> (\<exists>ev. x = OnMotion ev \<or> x = OnRelease ev)"
proof (cases x)
  case (OnMotion ev)
  have "rect_remove h = Inl e' \<Longrightarrow> e' = ValueError" for h e'
    by (cases h) simp_all
  with OnMotion assms show ?thesis
    by (auto simp: on_motion_def split: if_splits option.splits sum.splits mouse_event.splits)
next
  case (OnRelease ev)
  have "rect_remove h = Inl e' \<Longrightarrow> e' = ValueError" for h e'
    by (cases h) simp_all
  with OnRelease assms show ?thesis
    by (auto simp: on_release_def split: if_splits option.splits sum.splits mouse_event.splits)
next
  case FitPeaks
  then show ?thesis using assms fit_peaks_total [of curve_fit simps s] by auto
qed (use assms in auto)

lemma run_invariants:
  assumes "run pyfloat curve_fit simps xs s = (s', es)"
  shows "(\<exists>zs. map raw_data (datasets s') = map raw_data (datasets s) @ zs) \<and>
         (all_within_regions s \<longrightarrow> all_within_regions s')"
  using assms
proof (induction xs arbitrary: s es)
  case Nil
  then show ?case by simp
next
  case (Cons x xs)
  show ?case
  proof (cases "step pyfloat curve_fit simps x s")
    case (Inl e)
    with Cons.prems obtain es' where "run pyfloat curve_fit simps xs s = (s', es')"
      by (auto split: prod.splits)
    then show ?thesis by (rule Cons.IH)
  next
    case (Inr s1)
    with Cons.prems have r: "run pyfloat curve_fit simps xs s1 = (s', es)" by simp
    from step_invariants [OF Inr] Cons.IH [OF r] show ?thesis by auto
  qed
qed

lemma filter_skip_region:
  "\<not> has_samples r x_data \<Longrightarrow>
   filter (\<lambda>r. has_samples r x_data) (before @ r # after) =
   filter (\<lambda>r. has_samples r x_data) (before @ after)"
  by simp

lemma map_some_inject:
  "map (\<lambda>res. Inr (Some res) :: pyerr + fit_result option) xs = map (\<lambda>res. Inr (Some res)) ys
   \<Longrightarrow> xs = ys"
  by (simp add: inj_on_def inj_map_eq_map)

text \<open>
  Claim C6.  A region whose bounds select no sample of the current series is skipped:
  no entry is appended for it, the fit of the dataset yields exactly the results of
  fitting the other regions in their order, and the result list is then shorter than the
  region list.
\<close>

theorem empty_roi_skipped:
  assumes "current_dataset s = Some d"
    and "selected_regions d = before @ r # after"
    and "\<not> has_samples r (col 0 (current_series d))"
  shows "fit_roi curve_fit simps (col 0 (current_series d)) (col 1 (current_series d)) r = Inr None \<and>
         (\<exists>results.
            fit_loop curve_fit simps (col 0 (current_series d)) (col 1 (current_series d))
              (before @ after) [] = Inr results \<and>
            fit_peaks curve_fit simps s = Inr (store_current s (d\<lparr>fit_results := results\<rparr>)) \<and>
            length results < length (selected_regions d))"
proof -
  let ?xd = "col 0 (current_series d)"
  let ?yd = "col 1 (current_series d)"
  have len: "length ?xd = length ?yd" by (simp add: length_col)
  have ne: "selected_regions d \<noteq> []" using assms(2) by simp
  from fit_peaks_char [OF assms(1) ne, of curve_fit simps] obtain results
    where fp: "fit_peaks curve_fit simps s = Inr (store_current s (d\<lparr>fit_results := results\<rparr>))"
      and mp: "map (fit_roi curve_fit simps ?xd ?yd)
                 (filter (\<lambda>r. has_samples r ?xd) (selected_regions d)) =
               map (\<lambda>res. Inr (Some res)) results"
    by blast
  from fit_loop_char [OF len, of curve_fit simps "before @ after" "[]"] obtain results'
    where fl: "fit_loop curve_fit simps ?xd ?yd (before @ after) [] = Inr results'"
      and mp': "map (fit_roi curve_fit simps ?xd ?yd)
                 (filter (\<lambda>r. has_samples r ?xd) (before @ after)) =
               map (\<lambda>res. Inr (Some res)) results'"
    by auto
  have "map (\<lambda>res. Inr (Some res) :: pyerr + fit_result option) results =
        map (\<lambda>res. Inr (Some res)) results'"
    using mp mp' assms(2) filter_skip_region [OF assms(3), of before after] by simp
  then have eq: "results = results'" by (rule map_some_inject)
  have "length results' \<le> length (before @ after)"
    using mp' by (rule results_length_le)
  then have "length results' < length (selected_regions d)"
    using assms(2) by simp
  with fp fl eq fit_roi_empty [OF assms(3), of curve_fit simps ?yd] show ?thesis by auto
qed

lemma example_fit_roi:
  "fit_roi failing_curve_fit zero_simps [1, 2, 3] [10, 30, 20] example_second_region =
     Inr (Some (dummy_result [30, 2, 1 / 3, 0, 20]))"
  by (simp add: fit_roi_def Let_def np_any_def initial_guess_def select_mask_def roi_mask_def
        example_second_region_def np_argmax_def np_min_def getitem_def fit_try_def
        failing_curve_fit_def)

theorem empty_roi_skipped_witness:
  "current_dataset (example_analyzer example_two_regions) = Some example_two_regions \<and>
   selected_regions example_two_regions =
     [] @ \<lparr>x_min = 5, x_max = 6, width = 1, color = ''#1f77b4''\<rparr> # [example_second_region] \<and>
   \<not> has_samples \<lparr>x_min = 5, x_max = 6, width = 1, color = ''#1f77b4''\<rparr>
       (col 0 (current_series example_two_regions)) \<and>
   fit_peaks failing_curve_fit zero_simps (example_analyzer example_two_regions) =
     Inr (example_analyzer
            (example_two_regions\<lparr>fit_results := [dummy_result [30, 2, 1 / 3, 0, 20]]\<rparr>))"
proof -
  have h1: "current_dataset (example_analyzer example_two_regions) = Some example_two_regions"
    by (rule example_current)
  have h2: "selected_regions example_two_regions =
     [] @ \<lparr>x_min = 5, x_max = 6, width = 1, color = ''#1f77b4''\<rparr> # [example_second_region]"
    by (simp add: example_two_regions_def)
  have xd: "col 0 (current_series example_two_regions) = [1, 2, 3]"
    and yd: "col 1 (current_series example_two_regions) = [10, 30, 20]"
    by (simp_all add: example_two_regions_def example_dataset_def Dataset_init_def
          current_series_def col_def)
  have h3: "\<not> has_samples \<lparr>x_min = 5, x_max = 6, width = 1, color = ''#1f77b4''\<rparr>
       (col 0 (current_series example_two_regions))"
    by (simp add: xd has_samples_def)
  have st: "store_current (example_analyzer d) d' = example_analyzer d'" for d d'
    by (simp add: store_current_def example_analyzer_def)
  from empty_roi_skipped [OF h1 h2 h3, of failing_curve_fit zero_simps, unfolded xd yd]
  obtain results
    where fl: "fit_loop failing_curve_fit zero_simps [1, 2, 3] [10, 30, 20]
                 ([] @ [example_second_region]) [] = Inr results"
      and fp: "fit_peaks failing_curve_fit zero_simps (example_analyzer example_two_regions) =
                 Inr (store_current (example_analyzer example_two_regions)
                        (example_two_regions\<lparr>fit_results := results\<rparr>))"
    by blast
  from fl have "results = [dummy_result [30, 2, 1 / 3, 0, 20]]"
    by (simp add: example_fit_roi)
  with fp h1 h2 h3 show ?thesis
    by (simp add: st)
qed

section \<open>Committing regions and importing\<close>

lemma length_colors: "length colors = 10"
  by (simp add: colors_def)

lemma on_release_current:
  assumes "region_selection_active s" and "current_roi s = Some cr"
    and "current_dataset s = Some d" and "rect cr \<noteq> Detached"
  shows "\<exists>s'. on_release (InAxes x y) s = Inr s' \<and> current_roi s' = None \<and>
           current_dataset s' =
             Some (if \<bar>x - start_x cr\<bar> \<le> 0.001 then d
                   else d\<lparr>selected_regions := selected_regions d @
                            [\<lparr>x_min = min (start_x cr) x, x_max = max (start_x cr) x,
                              width = max (start_x cr) x - min (start_x cr) x,
                              color = colors ! (length (selected_regions d) mod 10)\<rparr>]\<rparr>)"
proof -
  have cur: "current_dataset (t\<lparr>region_selection_active := a, current_roi := c\<rparr>) = current_dataset t"
    for t a c by (simp add: current_dataset_def)
  have cur2: "current_dataset (t\<lparr>current_roi := c\<rparr>) = current_dataset t"
    for t c by (simp add: current_dataset_def)
  have cur3: "current_dataset (t\<lparr>region_selection_active := a\<rparr>) = current_dataset t"
    for t a by (simp add: current_dataset_def)
  have w: "\<bar>max (start_x cr) x - min (start_x cr) x\<bar> = max (start_x cr) x - min (start_x cr) x"
    by simp
  from assms(4) obtain h where h: "rect_remove (rect cr) = Inr h"
    by (cases "rect cr") simp_all
  show ?thesis
    using assms(1-3) h
    by (simp add: on_release_def Let_def cur cur2 cur3 new_region_def length_colors w
          current_dataset_store_current)
qed

lemma on_release_small:
  assumes "region_selection_active s" and "current_roi s = Some cr"
    and "\<bar>x - start_x cr\<bar> \<le> 0.001"
  shows "on_release (InAxes x y) s = Inr (s\<lparr>current_roi := None\<rparr>)"
  using assms by (simp add: on_release_def)

lemma on_release_detached:
  assumes "region_selection_active s" and "current_roi s = Some cr"
    and "rect cr = Detached" and "\<bar>x - start_x cr\<bar> > 0.001"
  shows "on_release (InAxes x y) s = Inl ValueError"
  using assms by (simp add: on_release_def)

lemma np_loadtxt_char:
  "np_loadtxt file_lines =
     (let t = filter (\<lambda>row. row \<noteq> []) file_lines in
      if t = [] then Inr (Arr1 [])
      else if \<not> list_all (\<lambda>row. length row = length (hd t)) t then Inl ValueError
      else if length t = 1 then
        (if length (hd t) = 1 then Inr (Arr0 (hd (hd t))) else Inr (Arr1 (hd t)))
      else if length (hd t) = 1 then Inr (Arr1 (map hd t))
      else Inr (Arr2 (length (hd t)) t))"
proof (cases "filter (\<lambda>row. row \<noteq> []) file_lines")
  case Nil
  then show ?thesis by (simp add: np_loadtxt_def)
next
  case (Cons first others)
  have "list_ex (\<lambda>row. length row \<noteq> length first) others =
        (\<not> list_all (\<lambda>row. length row = length first) others)"
    by (auto simp: list_ex_iff list_all_iff)
  with Cons show ?thesis
    by (cases others) (simp_all add: np_loadtxt_def Let_def)
qed

lemma load_dataset_char:
  "load_dataset fn file_lines =
     (let t = filter (\<lambda>row. row \<noteq> []) file_lines in
      if 2 \<le> length t \<and> 2 \<le> length (hd t) \<and> list_all (\<lambda>row. length row = length (hd t)) t
      then Inr (Dataset_init fn (butlast t)) else Inl ValueError)"
proof -
  let ?t = "filter (\<lambda>row. row \<noteq> []) file_lines"
  have hd_ne: "?t \<noteq> [] \<Longrightarrow> length (hd ?t) \<noteq> 0"
    using hd_in_set [of ?t] by auto
  have len: "?t \<noteq> [] \<Longrightarrow> length ?t \<noteq> 1 \<Longrightarrow> 2 \<le> length ?t"
    by (cases ?t) (auto simp: Suc_le_eq)
  show ?thesis
    unfolding load_dataset_def np_loadtxt_char Let_def
    using hd_ne len
    by (auto simp: checked_rows_def)
qed

lemma example_detour_run:
  "run example_float failing_curve_fit zero_simps example_detour_ops analyzer_init =
     (example_detour, [])"
proof -
  have l: "load_dataset ''spectrum.txt'' [[1, 10], [2, 30], [3, 20], [4, 0]] = Inr example_dataset"
    by (simp add: load_dataset_char example_dataset_def)
  show ?thesis
    by (simp add: example_detour_ops_def import_data_def l analyzer_init_def
          toggle_roi_selection_def on_motion_def example_detour_def)
qed

text \<open>
  Claim C7.  A release inside the axes with \<open>\<bar>x - x_start\<bar> > 0.001\<close> is to append the
  region.  \<open>on_release\<close> does so as long as the temporary rectangle is still on the axes
  or was never drawn (\<open>on_release_current\<close>), and appends nothing for a smaller distance
  (\<open>on_release_small\<close>).  After the pointer has left the axes once during the drag, the
  dictionary still refers to the rectangle that \<open>on_motion\<close> removed: a release at
  distance 2 then raises \<open>ValueError\<close> before the append, the dataset keeps its empty
  region list, and \<open>current_roi\<close> is not reset.
\<close>

theorem on_release_after_detour_raises:
  "run example_float failing_curve_fit zero_simps example_detour_ops analyzer_init =
     (example_detour, []) \<and>
   region_selection_active example_detour \<and>
   current_roi example_detour =
     Some \<lparr>start_x = 3.5, start_y = 7, drag_width = Some 0.001, rect = Detached\<rparr> \<and>
   current_dataset example_detour = Some example_dataset \<and>
   selected_regions example_dataset = [] \<and>
   \<bar>1.5 - 3.5 :: real\<bar> > 0.001 \<and>
   on_release (InAxes 1.5 7) example_detour = Inl ValueError \<and>
   run example_float failing_curve_fit zero_simps
       (example_detour_ops @ [OnRelease (InAxes 1.5 7)]) analyzer_init =
     (example_detour, [ValueError])"
proof -
  have r: "on_release (InAxes 1.5 7) example_detour = Inl ValueError"
    by (simp add: on_release_def example_detour_def)
  have l: "load_dataset ''spectrum.txt'' [[1, 10], [2, 30], [3, 20], [4, 0]] = Inr example_dataset"
    by (simp add: load_dataset_char example_dataset_def)
  have "run example_float failing_curve_fit zero_simps
          (example_detour_ops @ [OnRelease (InAxes 1.5 7)]) analyzer_init =
        (example_detour, [ValueError])"
    by (simp add: example_detour_ops_def import_data_def l analyzer_init_def
          toggle_roi_selection_def on_motion_def on_release_def example_detour_def)
  with r example_detour_run show ?thesis
    by (simp add: example_detour_def current_dataset_def example_dataset_def Dataset_init_def)
qed

text \<open>
  Claim C8.  Import drops the last row of the table.  It fails, leaving the analyzer as
  it was, when a row has fewer than two columns or when no row would remain; a table of
  at least two rows of one width of at least two columns is accepted; and an accepted
  dataset has the truncated table as raw series, the same table as adjusted series, and
  \<open>x_axis_adjusted = False\<close>.
\<close>

theorem import_truncates_last_row:
  assumes "fn \<noteq> []"
  shows "(list_ex (\<lambda>row. length row < 2) (filter (\<lambda>row. row \<noteq> []) file_lines) \<or>
          butlast (filter (\<lambda>row. row \<noteq> []) file_lines) = []
            \<longrightarrow> load_dataset fn file_lines = Inl ValueError \<and>
                import_data fn file_lines s = s) \<and>
         (\<forall>d. load_dataset fn file_lines = Inr d
            \<longrightarrow> raw_data d = butlast (filter (\<lambda>row. row \<noteq> []) file_lines) \<and>
                raw_data d \<noteq> [] \<and>
                adjusted_data d = raw_data d \<and> \<not> x_axis_adjusted d \<and>
                selected_regions d = [] \<and> fit_results d = [] \<and>
                import_data fn file_lines s =
                  s\<lparr>datasets := datasets s @ [d],
                    current_dataset_index := int (length (datasets s))\<rparr>) \<and>
         (2 \<le> length (filter (\<lambda>row. row \<noteq> []) file_lines) \<and>
          list_all (\<lambda>row. length row = length (hd (filter (\<lambda>row. row \<noteq> []) file_lines)) \<and>
                          2 \<le> length row) (filter (\<lambda>row. row \<noteq> []) file_lines)
            \<longrightarrow> (\<exists>d. load_dataset fn file_lines = Inr d))"
proof -
  let ?t = "filter (\<lambda>row. row \<noteq> []) file_lines"
  let ?ok = "2 \<le> length ?t \<and> 2 \<le> length (hd ?t) \<and>
             list_all (\<lambda>row. length row = length (hd ?t)) ?t"
  have ld: "load_dataset fn file_lines =
              (if ?ok then Inr (Dataset_init fn (butlast ?t)) else Inl ValueError)"
    using load_dataset_char [of fn file_lines] by (simp add: Let_def)
  have a: "\<not> ?ok" if "list_ex (\<lambda>row. length row < 2) ?t"
  proof
    assume ok: ?ok
    from that obtain row where "row \<in> set ?t" "length row < 2"
      unfolding list_ex_iff by blast
    with ok show False unfolding list_all_iff by fastforce
  qed
  have b: "\<not> ?ok" if "butlast ?t = []"
  proof -
    from that have "length ?t \<le> 1"
      by (cases ?t) (auto split: if_splits)
    then show ?thesis by simp
  qed
  have c: "butlast ?t \<noteq> []" if ?ok
  proof -
    from that have "2 \<le> length ?t" by simp
    then have "length (butlast ?t) \<noteq> 0" by simp
    then show ?thesis by (metis list.size(3))
  qed
  have p1: "list_ex (\<lambda>row. length row < 2) ?t \<or> butlast ?t = []
            \<longrightarrow> load_dataset fn file_lines = Inl ValueError \<and> import_data fn file_lines s = s"
    using a b assms by (auto simp: ld import_data_def)
  have p2: "\<forall>d. load_dataset fn file_lines = Inr d
            \<longrightarrow> raw_data d = butlast ?t \<and> raw_data d \<noteq> [] \<and>
                adjusted_data d = raw_data d \<and> \<not> x_axis_adjusted d \<and>
                selected_regions d = [] \<and> fit_results d = [] \<and>
                import_data fn file_lines s =
                  s\<lparr>datasets := datasets s @ [d],
                    current_dataset_index := int (length (datasets s))\<rparr>"
    using c assms by (auto simp: ld import_data_def Dataset_init_def split: if_splits)
  have p3: "2 \<le> length ?t \<and>
          list_all (\<lambda>row. length row = length (hd ?t) \<and> 2 \<le> length row) ?t
            \<longrightarrow> (\<exists>d. load_dataset fn file_lines = Inr d)"
  proof
    assume h: "2 \<le> length ?t \<and>
          list_all (\<lambda>row. length row = length (hd ?t) \<and> 2 \<le> length row) ?t"
    then have ne: "?t \<noteq> []" by auto
    from h have "list_all (\<lambda>row. length row = length (hd ?t)) ?t"
      and "\<forall>row\<in>set ?t. 2 \<le> length row"
      unfolding list_all_iff by auto
    moreover from this(2) hd_in_set [OF ne] have "2 \<le> length (hd ?t)" by blast
    ultimately have ?ok using h by simp
    then show "\<exists>d. load_dataset fn file_lines = Inr d" by (simp add: ld)
  qed
  from p1 p2 p3 show ?thesis by blast
qed

theorem import_truncates_last_row_witness:
  "''spectrum.txt'' \<noteq> [] \<and>
   load_dataset ''spectrum.txt'' [[1, 10], [2, 30], [3, 20], [4, 0]] = Inr example_dataset \<and>
   import_data ''spectrum.txt'' [[1, 10], [2, 30], [3, 20], [4, 0]] analyzer_init =
     example_analyzer example_dataset \<and>
   butlast (filter (\<lambda>row. row \<noteq> []) [[1, 10 :: real]]) = [] \<and>
   load_dataset ''spectrum.txt'' [[1, 10]] = Inl ValueError \<and>
   import_data ''spectrum.txt'' [[1, 10]] analyzer_init = analyzer_init \<and>
   list_ex (\<lambda>row. length row < 2) (filter (\<lambda>row. row \<noteq> []) [[1 :: real], [2], [3]]) \<and>
   load_dataset ''spectrum.txt'' [[1], [2], [3]] = Inl ValueError"
proof -
  have n: "''spectrum.txt'' \<noteq> []" by simp
  have l: "load_dataset ''spectrum.txt'' [[1, 10], [2, 30], [3, 20], [4, 0]] = Inr example_dataset"
    by (simp add: load_dataset_char example_dataset_def)
  have e1: "butlast (filter (\<lambda>row. row \<noteq> []) [[1, 10 :: real]]) = []" by simp
  have e2: "list_ex (\<lambda>row. length row < 2) (filter (\<lambda>row. row \<noteq> []) [[1 :: real], [2], [3]])"
    by simp
  from import_truncates_last_row [OF n, of "[[1, 10], [2, 30], [3, 20], [4, 0]]" analyzer_init]
    import_truncates_last_row [OF n, of "[[1, 10]]" analyzer_init]
    import_truncates_last_row [OF n, of "[[1], [2], [3]]" analyzer_init]
    l e1 e2
  show ?thesis
    by (simp add: analyzer_init_def example_analyzer_def)
qed

text \<open>
  Claim C9.  No sequence of operations changes the raw series of a dataset that exists:
  whatever the operations are, and whether or not a mouse handler raises on the way, the
  raw series of the datasets present at the start are the same afterwards (an import only
  adds a dataset).
\<close>

theorem raw_data_never_modified:
  "take (length (datasets s))
     (map raw_data (datasets (fst (run pyfloat curve_fit simps ops s)))) =
   map raw_data (datasets s)"
proof -
  obtain s' es where r: "run pyfloat curve_fit simps ops s = (s', es)"
    by (cases "run pyfloat curve_fit simps ops s")
  from run_invariants [OF r] obtain zs
    where "map raw_data (datasets s') = map raw_data (datasets s) @ zs"
    by blast
  with r show ?thesis by simp
qed

lemma all_within_regions_init: "all_within_regions analyzer_init"
  by (simp add: all_within_regions_def analyzer_init_def)

lemma store_current_same:
  assumes "current_dataset s = Some d"
  shows "store_current s d = s"
proof -
  from current_dataset_nth [OF assms]
  have "(datasets s)[nat (current_dataset_index s) := d] = datasets s"
    by (metis list_update_id)
  then show ?thesis by (simp add: store_current_def)
qed

lemma fit_peaks_current:
  assumes "all_within_regions s" and "current_dataset s = Some d"
  shows "\<exists>results.
           fit_peaks curve_fit simps s = Inr (store_current s (d\<lparr>fit_results := results\<rparr>)) \<and>
           length results \<le> length (selected_regions d) \<and>
           map (fit_roi curve_fit simps (col 0 (current_series d)) (col 1 (current_series d)))
               (filter (\<lambda>r. has_samples r (col 0 (current_series d))) (selected_regions d)) =
             map (\<lambda>res. Inr (Some res)) results"
proof (cases "selected_regions d = []")
  case True
  from current_within [OF assms] True have nil: "fit_results d = []"
    by (simp add: within_regions_def)
  then have "d\<lparr>fit_results := []\<rparr> = d" by simp
  then have "store_current s (d\<lparr>fit_results := []\<rparr>) = s"
    using store_current_same [OF assms(2)] by simp
  with True assms(2) show ?thesis
    by (intro exI [of _ "[]"]) (simp add: fit_peaks_no_regions)
next
  case False
  from fit_peaks_char [OF assms(2) False, of curve_fit simps] obtain results
    where fp: "fit_peaks curve_fit simps s = Inr (store_current s (d\<lparr>fit_results := results\<rparr>))"
      and mp: "map (fit_roi curve_fit simps (col 0 (current_series d)) (col 1 (current_series d)))
                 (filter (\<lambda>r. has_samples r (col 0 (current_series d))) (selected_regions d)) =
               map (\<lambda>res. Inr (Some res)) results"
    by blast
  from fp mp results_length_le [OF mp] show ?thesis by blast
qed

text \<open>
  Claim C10.  From the initial analyzer, after every sequence of operations no dataset
  has more fit results than regions.  A fit in the analyzer reached changes nothing but
  the fit results of the current dataset: its regions, its series and every other dataset
  stay, there are at most as many results as regions, and the results are, in order, the
  results of the regions that have samples.  Without a current dataset the fit changes
  nothing.
\<close>

theorem fit_results_follow_regions:
  "\<exists>s' es. run pyfloat curve_fit simps ops analyzer_init = (s', es) \<and>
      all_within_regions s' \<and>
      (case current_dataset s' of
         None \<Rightarrow> fit_peaks curve_fit simps s' = Inr s'
       | Some d \<Rightarrow>
           (\<exists>results.
              fit_peaks curve_fit simps s' = Inr (store_current s' (d\<lparr>fit_results := results\<rparr>)) \<and>
              all_within_regions (store_current s' (d\<lparr>fit_results := results\<rparr>)) \<and>
              length results \<le> length (selected_regions d) \<and>
              map (fit_roi curve_fit simps (col 0 (current_series d)) (col 1 (current_series d)))
                  (filter (\<lambda>r. has_samples r (col 0 (current_series d))) (selected_regions d)) =
                map (\<lambda>res. Inr (Some res)) results))"
proof -
  obtain s' es where r: "run pyfloat curve_fit simps ops analyzer_init = (s', es)"
    by (cases "run pyfloat curve_fit simps ops analyzer_init")
  from run_invariants [OF r] all_within_regions_init have w: "all_within_regions s'"
    by blast
  show ?thesis
  proof (cases "current_dataset s'")
    case None
    with r w show ?thesis by (simp add: fit_peaks_none)
  next
    case (Some d)
    from fit_peaks_current [OF w Some, of curve_fit simps] obtain results
      where fp: "fit_peaks curve_fit simps s' =
                   Inr (store_current s' (d\<lparr>fit_results := results\<rparr>))"
        and le: "length results \<le> length (selected_regions d)"
        and mp: "map (fit_roi curve_fit simps (col 0 (current_series d))
                        (col 1 (current_series d)))
                   (filter (\<lambda>r. has_samples r (col 0 (current_series d)))
                      (selected_regions d)) =
                 map (\<lambda>res. Inr (Some res)) results"
      by blast
    have "within_regions (d\<lparr>fit_results := results\<rparr>)"
      using le by (simp add: within_regions_def)
    then have "all_within_regions (store_current s' (d\<lparr>fit_results := results\<rparr>))"
      by (rule store_current_within [OF w])
    with r w Some fp le mp show ?thesis by auto
  qed
qed

lemma example_ops_run:
  "run example_float failing_curve_fit zero_simps example_ops analyzer_init =
     (example_analyzer (example_dataset\<lparr>selected_regions := [example_region]\<rparr>), [])"
proof -
  have l: "load_dataset ''spectrum.txt'' [[1, 10], [2, 30], [3, 20], [4, 0]] = Inr example_dataset"
    by (simp add: load_dataset_char example_dataset_def)
  have nil: "selected_regions example_dataset = []"
    by (simp add: example_dataset_def Dataset_init_def)
  show ?thesis
    by (simp add: example_ops_def import_data_def l analyzer_init_def toggle_roi_selection_def
          on_motion_def on_release_def current_dataset_def store_current_def new_region_def
          nil colors_def example_region_def example_analyzer_def)
qed

lemma example_region_fit_roi:
  "fit_roi failing_curve_fit zero_simps [1, 2, 3] [10, 30, 20] example_region =
     Inr (Some (dummy_result [30, 2, 1 / 3, 0, 20]))"
  by (simp add: fit_roi_def Let_def np_any_def initial_guess_def select_mask_def roi_mask_def
        example_region_def np_argmax_def np_min_def getitem_def fit_try_def
        failing_curve_fit_def)

theorem fit_results_follow_regions_witness:
  "run example_float failing_curve_fit zero_simps example_ops analyzer_init =
     (example_analyzer (example_dataset\<lparr>selected_regions := [example_region]\<rparr>), []) \<and>
   fit_peaks failing_curve_fit zero_simps
       (example_analyzer (example_dataset\<lparr>selected_regions := [example_region]\<rparr>)) =
     Inr (example_analyzer
            (example_dataset\<lparr>selected_regions := [example_region],
                             fit_results := [dummy_result [30, 2, 1 / 3, 0, 20]]\<rparr>))"
proof -
  let ?d = "example_dataset\<lparr>selected_regions := [example_region]\<rparr>"
  have cur: "current_dataset (example_analyzer ?d) = Some ?d"
    by (rule example_current)
  have xd: "col 0 (current_series ?d) = [1, 2, 3]"
    and yd: "col 1 (current_series ?d) = [10, 30, 20]"
    by (simp_all add: example_dataset_def Dataset_init_def current_series_def col_def)
  have hs: "has_samples example_region [1, 2, 3]"
    by (simp add: has_samples_def example_region_def)
  have st: "store_current (example_analyzer d) d' = example_analyzer d'" for d d'
    by (simp add: store_current_def example_analyzer_def)
  from fit_results_follow_regions [of example_float failing_curve_fit zero_simps example_ops]
  obtain results
    where fp: "fit_peaks failing_curve_fit zero_simps (example_analyzer ?d) =
                 Inr (store_current (example_analyzer ?d) (?d\<lparr>fit_results := results\<rparr>))"
      and mp: "map (fit_roi failing_curve_fit zero_simps (col 0 (current_series ?d))
                      (col 1 (current_series ?d)))
                 (filter (\<lambda>r. has_samples r (col 0 (current_series ?d))) (selected_regions ?d)) =
               map (\<lambda>res. Inr (Some res)) results"
    unfolding example_ops_run by (auto simp: cur)
  from mp have "map (\<lambda>res. Inr (Some res) :: pyerr + fit_result option) results =
                map (\<lambda>res. Inr (Some res)) [dummy_result [30, 2, 1 / 3, 0, 20]]"
    unfolding xd yd by (simp add: hs example_region_fit_roi)
  then have "results = [dummy_result [30, 2, 1 / 3, 0, 20]]"
    by (rule map_some_inject)
  with fp show ?thesis
    by (simp add: example_ops_run st)
qed

section \<open>2\<theta> calibration: mean, deviation and failures\<close>

lemma fadd_NaN_right [simp]: "fadd x NaN = NaN"
  by (cases x) simp_all

lemma foldl_fadd_NaN: "foldl fadd NaN xs = NaN"
  by (induction xs) simp_all

lemma foldl_fadd_has_NaN: "NaN \<in> set xs \<Longrightarrow> foldl fadd a xs = NaN"
  by (induction xs arbitrary: a) (auto simp: foldl_fadd_NaN)

lemma np_sum_has_NaN: "NaN \<in> set xs \<Longrightarrow> np_sum xs = NaN"
  by (simp add: np_sum_def foldl_fadd_has_NaN)

lemma np_mean_has_NaN: "NaN \<in> set xs \<Longrightarrow> np_mean xs = NaN"
  by (simp add: np_mean_def np_sum_has_NaN)

lemma np_std_has_NaN:
  assumes "NaN \<in> set xs"
  shows "np_std xs = NaN"
proof -
  have m: "np_mean xs = NaN" using assms by (rule np_mean_has_NaN)
  have "fsq (fabs (fsub x NaN)) = NaN" for x
    by (simp add: fsub_def fsq_def)
  then have eq: "map (\<lambda>x. fsq (fabs (fsub x (np_mean xs)))) xs = map (\<lambda>x. NaN) xs"
    by (simp add: m)
  have "NaN \<in> set (map (\<lambda>x. NaN) xs)"
    using assms by (cases xs) auto
  then have "np_mean (map (\<lambda>x. NaN) xs) = NaN"
    by (rule np_mean_has_NaN)
  then show ?thesis
    unfolding np_std_def eq by simp
qed

lemma foldl_fadd_Num: "foldl fadd (Num a) (map Num xs) = Num (a + sum_list xs)"
  by (induction xs arbitrary: a) (simp_all add: add.assoc)

lemma np_sum_Num: "np_sum (map Num xs) = Num (sum_list xs)"
  by (simp add: np_sum_def foldl_fadd_Num)

lemma np_mean_Num: "xs \<noteq> [] \<Longrightarrow> np_mean (map Num xs) = Num (spec_mean xs)"
  by (simp add: np_mean_def np_sum_Num spec_mean_def)

lemma np_std_Num:
  assumes "xs \<noteq> []"
  shows "np_std (map Num xs) = Num (spec_pop_std xs)"
proof -
  let ?m = "spec_mean xs"
  have "map (\<lambda>x. fsq (fabs (fsub x (Num ?m)))) (map Num xs) = map Num (map (\<lambda>x. (x - ?m)\<^sup>2) xs)"
    by (simp add: fsub_def fsq_def power2_eq_square)
  moreover have "0 \<le> sum_list (map (\<lambda>x. (x - ?m)\<^sup>2) xs) / real (length xs)"
    by (intro divide_nonneg_nonneg sum_list_nonneg) auto
  ultimately show ?thesis
    using assms
    by (simp add: np_std_def np_mean_Num [OF assms] spec_pop_std_def
          np_mean_Num [of "map (\<lambda>x. (x - ?m)\<^sup>2) xs"] spec_mean_def [of "map _ xs"]
          del: map_map)
qed

lemma twotheta_deg_pair_value: "twotheta_deg d E = pair_value (d, E)"
  by (simp add: twotheta_deg_def pair_value_def in_domain_def spec_arg_def spec_twotheta_def
        np_degrees_def np_arcsin_def HC_KEV_ANGSTROM_def)

lemma twotheta_loop_char:
  "twotheta_loop pairs vals =
     (if list_all nonzero_product pairs then Inr (vals @ map pair_value pairs)
      else Inl ZeroDivisionError)"
  by (induction pairs vals rule: twotheta_loop.induct)
     (auto simp: nonzero_product_def twotheta_deg_pair_value)

lemma row_pair_complete: "(row_pair pyfloat row \<noteq> None) = complete_row pyfloat row"
  by (auto simp: row_pair_def complete_row_def split: prod.splits option.splits)

lemma collect_pairs_char:
  "collect_pairs pyfloat rows pairs = pairs @ List.map_filter (row_pair pyfloat) rows"
  by (induction rows arbitrary: pairs) (auto simp: List.map_filter_simps split: option.splits)

lemma collect_pairs_filter:
  "collect_pairs pyfloat (filter (complete_row pyfloat) rows) pairs =
   collect_pairs pyfloat rows pairs"
  by (induction rows arbitrary: pairs)
     (auto simp: row_pair_complete [symmetric] split: option.splits)

lemma collect_pairs_empty:
  "\<not> list_ex (complete_row pyfloat) rows \<Longrightarrow> collect_pairs pyfloat rows [] = []"
  by (induction rows)
     (auto simp: row_pair_complete [symmetric] split: option.splits)

lemma calibrate_2theta_char:
  "calibrate_2theta pyfloat rows =
     (let pairs = collect_pairs pyfloat rows [] in
      if pairs = [] then Inl NeedAtLeastOnePair
      else if \<not> list_all nonzero_product pairs then Inl (CalibrationFailed ZeroDivisionError)
      else Inr \<lparr>avg_2theta = np_mean (map pair_value pairs),
                std_2theta = np_std (map pair_value pairs),
                constant_used = 12.39842, n_pairs = length pairs\<rparr>)"
  by (simp add: calibrate_2theta_def Let_def twotheta_loop_char HC_KEV_ANGSTROM_def)

lemma pair_value_in_domain:
  "list_all in_domain pairs \<Longrightarrow> map pair_value pairs = map Num (map spec_twotheta pairs)"
  by (induction pairs) (simp_all add: pair_value_def)

lemma pair_value_out_of_domain:
  "list_ex (\<lambda>p. \<not> in_domain p) pairs \<Longrightarrow> NaN \<in> set (map pair_value pairs)"
  by (induction pairs) (auto simp: pair_value_def)

lemma collect_pairs_nonempty:
  "list_ex (complete_row pyfloat) rows \<Longrightarrow> collect_pairs pyfloat rows [] \<noteq> []"
proof (induction rows)
  case Nil
  then show ?case by simp
next
  case (Cons row rows)
  show ?case
  proof (cases "row_pair pyfloat row")
    case None
    then have "\<not> complete_row pyfloat row"
      using row_pair_complete [of pyfloat row] by simp
    with Cons None show ?thesis by simp
  next
    case (Some p)
    then show ?thesis by (simp add: collect_pairs_char [of pyfloat rows "[p]"])
  qed
qed

text \<open>
  Claim C3, amended.  For a nonempty list of complete pairs none of which has
  \<open>d * E = 0\<close>, the calibration stores the mean and the standard deviation of the per-pair
  values, the constant \<open>12.39842\<close> and the number of pairs; a per-pair value is
  \<open>2 arcsin(hc / (2 d E))\<close> in degrees, NaN where the arcsine argument is outside
  \<open>[-1, 1]\<close>.  When every argument is inside, the stored numbers are the arithmetic mean
  and the population standard deviation (divisor \<open>n\<close>) of those angles.
\<close>

theorem calibrate_2theta_mean_std:
  assumes "collect_pairs pyfloat rows [] = pairs" and "pairs \<noteq> []"
    and "list_all nonzero_product pairs"
  shows "calibrate_2theta pyfloat rows =
           Inr \<lparr>avg_2theta = np_mean (map pair_value pairs),
                std_2theta = np_std (map pair_value pairs),
                constant_used = 12.39842, n_pairs = length pairs\<rparr> \<and>
         (list_all in_domain pairs \<longrightarrow>
            np_mean (map pair_value pairs) = Num (spec_mean (map spec_twotheta pairs)) \<and>
            np_std (map pair_value pairs) = Num (spec_pop_std (map spec_twotheta pairs)))"
proof -
  have res: "calibrate_2theta pyfloat rows =
           Inr \<lparr>avg_2theta = np_mean (map pair_value pairs),
                std_2theta = np_std (map pair_value pairs),
                constant_used = 12.39842, n_pairs = length pairs\<rparr>"
    using assms by (simp add: calibrate_2theta_char Let_def)
  have "np_mean (map pair_value pairs) = Num (spec_mean (map spec_twotheta pairs)) \<and>
        np_std (map pair_value pairs) = Num (spec_pop_std (map spec_twotheta pairs))"
    if "list_all in_domain pairs"
  proof -
    have ne: "map spec_twotheta pairs \<noteq> []" using assms(2) by simp
    show ?thesis
      unfolding pair_value_in_domain [OF that]
      using np_mean_Num [OF ne] np_std_Num [OF ne] by simp
  qed
  with res show ?thesis by blast
qed

theorem calibrate_2theta_mean_std_witness:
  "collect_pairs example_float [(Some ''2.1065'', Some ''5.9'')] [] = [(2.1065, 5.9)] \<and>
   [(2.1065, 5.9 :: real)] \<noteq> [] \<and>
   list_all nonzero_product [(2.1065, 5.9)] \<and>
   list_all in_domain [(2.1065, 5.9)] \<and>
   calibrate_2theta example_float [(Some ''2.1065'', Some ''5.9'')] =
     Inr \<lparr>avg_2theta = Num (2 * arcsin (12.39842 / (2 * 2.1065 * 5.9)) * 180 / pi),
          std_2theta = Num 0, constant_used = 12.39842, n_pairs = 1\<rparr>"
proof -
  have h1: "collect_pairs example_float [(Some ''2.1065'', Some ''5.9'')] [] = [(2.1065, 5.9)]"
    by (simp add: row_pair_def example_float_def)
  have h2: "[(2.1065, 5.9 :: real)] \<noteq> []" by simp
  have h3: "list_all nonzero_product [(2.1065, 5.9)]"
    by (simp add: nonzero_product_def)
  have h4: "list_all in_domain [(2.1065, 5.9)]"
    by (simp add: in_domain_def spec_arg_def)
  from calibrate_2theta_mean_std [OF h1 h2 h3] h1 h2 h3 h4 show ?thesis
    by (simp add: spec_mean_def spec_pop_std_def spec_twotheta_def spec_arg_def)
qed

text \<open>
  Claim C3 as stated covers every nonempty list of complete pairs.  A pair with
  \<open>d = 0\<close> is complete, and the calibration then ends in the error box of the \<open>except\<close>
  branch without a result.
\<close>

theorem calibrate_2theta_zero_product_counterexample:
  "collect_pairs example_float [(Some ''0'', Some ''1'')] [] = [(0, 1)] \<and>
   calibrate_2theta example_float [(Some ''0'', Some ''1'')] =
     Inl (CalibrationFailed ZeroDivisionError)"
  by (simp add: calibrate_2theta_def row_pair_def example_float_def)

text \<open>
  Claim C4, amended.  Rows with a missing or non-numeric cell are skipped, and the
  calibration stops with the warning for an empty pair list exactly when no complete row
  remains.  A complete pair with \<open>hc / (2 d E) > 1\<close> does not make the calibration fail
  (when no pair has \<open>d * E = 0\<close>): the stored mean and standard deviation are NaN.
\<close>

theorem calibrate_2theta_failures:
  "calibrate_2theta pyfloat (filter (complete_row pyfloat) rows) = calibrate_2theta pyfloat rows \<and>
   (\<not> list_ex (complete_row pyfloat) rows \<longrightarrow>
      calibrate_2theta pyfloat rows = Inl NeedAtLeastOnePair) \<and>
   (list_ex (complete_row pyfloat) rows \<longrightarrow>
      calibrate_2theta pyfloat rows \<noteq> Inl NeedAtLeastOnePair) \<and>
   (list_all nonzero_product (collect_pairs pyfloat rows []) \<and>
    list_ex (\<lambda>p. 1 < spec_arg p) (collect_pairs pyfloat rows []) \<longrightarrow>
      calibrate_2theta pyfloat rows =
        Inr \<lparr>avg_2theta = NaN, std_2theta = NaN, constant_used = 12.39842,
             n_pairs = length (collect_pairs pyfloat rows [])\<rparr>)"
proof -
  let ?pairs = "collect_pairs pyfloat rows []"
  have a: "calibrate_2theta pyfloat (filter (complete_row pyfloat) rows) =
           calibrate_2theta pyfloat rows"
    by (simp add: calibrate_2theta_def collect_pairs_filter)
  have b: "\<not> list_ex (complete_row pyfloat) rows \<longrightarrow>
           calibrate_2theta pyfloat rows = Inl NeedAtLeastOnePair"
    by (simp add: calibrate_2theta_def collect_pairs_empty)
  have c: "list_ex (complete_row pyfloat) rows \<longrightarrow>
           calibrate_2theta pyfloat rows \<noteq> Inl NeedAtLeastOnePair"
    using collect_pairs_nonempty [of pyfloat rows]
    by (auto simp: calibrate_2theta_char Let_def)
  have d: "calibrate_2theta pyfloat rows =
        Inr \<lparr>avg_2theta = NaN, std_2theta = NaN, constant_used = 12.39842,
             n_pairs = length ?pairs\<rparr>"
    if nz: "list_all nonzero_product ?pairs" and big: "list_ex (\<lambda>p. 1 < spec_arg p) ?pairs"
  proof -
    from big have ne: "?pairs \<noteq> []" by auto
    from big obtain p where "p \<in> set ?pairs" and "1 < spec_arg p"
      unfolding list_ex_iff by blast
    then have "p \<in> set ?pairs" and "\<not> in_domain p"
      by (simp_all add: in_domain_def)
    then have "list_ex (\<lambda>p. \<not> in_domain p) ?pairs"
      unfolding list_ex_iff by blast
    then have nan: "NaN \<in> set (map pair_value ?pairs)"
      by (rule pair_value_out_of_domain)
    show ?thesis
      using ne nz by (simp add: calibrate_2theta_char Let_def np_mean_has_NaN [OF nan]
          np_std_has_NaN [OF nan])
  qed
  from a b c d show ?thesis by blast
qed

theorem calibrate_2theta_failures_witness:
  "\<not> list_ex (complete_row example_float)
       [(None, Some ''1''), (Some ''abc'', Some ''1''), (Some '''', Some ''1''), (Some ''1'', None)] \<and>
   calibrate_2theta example_float
       [(None, Some ''1''), (Some ''abc'', Some ''1''), (Some '''', Some ''1''), (Some ''1'', None)] =
     Inl NeedAtLeastOnePair \<and>
   collect_pairs example_float [(Some ''abc'', Some ''1''), (Some ''1'', Some ''2'')] [] = [(1, 2)] \<and>
   list_all nonzero_product [(1, 2)] \<and>
   list_ex (\<lambda>p. 1 < spec_arg p) [(1, 2)] \<and>
   calibrate_2theta example_float [(Some ''abc'', Some ''1''), (Some ''1'', Some ''2'')] =
     Inr \<lparr>avg_2theta = NaN, std_2theta = NaN, constant_used = 12.39842, n_pairs = 1\<rparr>"
proof -
  let ?rows1 = "[(None, Some ''1''), (Some ''abc'', Some ''1''), (Some '''', Some ''1''),
                 (Some ''1'', None)] :: calib_row list"
  let ?rows2 = "[(Some ''abc'', Some ''1''), (Some ''1'', Some ''2'')] :: calib_row list"
  have h1: "\<not> list_ex (complete_row example_float) ?rows1"
    by (simp add: complete_row_def example_float_def)
  have h2: "collect_pairs example_float ?rows2 [] = [(1, 2)]"
    by (simp add: row_pair_def example_float_def)
  have h3: "list_all nonzero_product [(1, 2)]"
    by (simp add: nonzero_product_def)
  have h4: "list_ex (\<lambda>p. 1 < spec_arg p) [(1, 2)]"
    by (simp add: spec_arg_def)
  from calibrate_2theta_failures [of example_float ?rows1]
    calibrate_2theta_failures [of example_float ?rows2] h1 h2 h3 h4
  show ?thesis by simp
qed

text \<open>
  Claim C4 as stated makes the calibration fail for a pair with \<open>hc / (2 d E) > 1\<close>.
  For the single pair \<open>d = 1\<close>, \<open>E = 1\<close> the argument is \<open>6.19921\<close> and the calibration
  succeeds with NaN values.
\<close>

theorem calibrate_2theta_out_of_domain_counterexample:
  "1 < HC_KEV_ANGSTROM / (2 * 1 * 1) \<and>
   calibrate_2theta example_float [(Some ''1'', Some ''1'')] =
     Inr \<lparr>avg_2theta = NaN, std_2theta = NaN, constant_used = 12.39842, n_pairs = 1\<rparr>"
proof -
  have p: "collect_pairs example_float [(Some ''1'', Some ''1'')] [] = [(1, 1)]"
    by (simp add: row_pair_def example_float_def)
  have v: "pair_value (1, 1) = NaN"
    by (simp add: pair_value_def in_domain_def spec_arg_def)
  have nan: "NaN \<in> set [NaN]" by simp
  have "calibrate_2theta example_float [(Some ''1'', Some ''1'')] =
          Inr \<lparr>avg_2theta = NaN, std_2theta = NaN, constant_used = 12.39842, n_pairs = 1\<rparr>"
    unfolding calibrate_2theta_char p
    by (simp add: nonzero_product_def v np_mean_has_NaN [OF nan] np_std_has_NaN [OF nan])
  then show ?thesis
    by (simp add: HC_KEV_ANGSTROM_def)
qed

end
